theory Spec2Isabelle
  imports Main "HOL-Library.Word" "HOL-Library.Sublist" "HOL-Library.AList"
begin

section \<open>JavaScript strings\<close>

text \<open>
  A JavaScript string is a sequence of UTF-16 code units. The regular expressions of the
  exporters carry no \<open>u\<close> flag, so they work on code units one by one, and so does this
  model. String literals of the source are written \<open>str ''...''\<close>.
\<close>

type_synonym jschar = "16 word"
type_synonym jsstring = "jschar list"

definition str :: "string \<Rightarrow> jsstring" where
  "str s = map (\<lambda>c. of_nat (of_char c)) s"

text \<open>
  \<open>String.prototype.toLowerCase\<close> on the code units \<open>A\<close> to \<open>Z\<close>. Code units outside
  ASCII are left as they are; every use below either applies it to a string over
  \<open>[A-Za-z0-9_-]\<close> or compares the result with an ASCII name that holds no \<open>k\<close>, and the
  only non-ASCII code unit that Unicode lower-cases to an ASCII letter is U+212A (to \<open>k\<close>).
\<close>

definition toLowerChar :: "jschar \<Rightarrow> jschar" where
  "toLowerChar c = (if 0x41 \<le> c \<and> c \<le> 0x5A then c + 0x20 else c)"

definition toLowerCase :: "jsstring \<Rightarrow> jsstring" where
  "toLowerCase s = map toLowerChar s"

section \<open>Folder-name sanitization of the exporters\<close>

text \<open>
  The character class \<open>[^a-z0-9_\-]\<close> under the flags \<open>gi\<close>. Without the \<open>u\<close> flag,
  case-insensitive matching canonicalizes with \<open>toUpperCase\<close> and never maps a code unit
  of 128 or more to one below 128, so the class excludes exactly
  \<open>a-z\<close>, \<open>A-Z\<close>, \<open>0-9\<close>, \<open>_\<close> and \<open>-\<close>.
\<close>

definition isFolderChar :: "jschar \<Rightarrow> bool" where
  "isFolderChar c =
     ((0x61 \<le> c \<and> c \<le> 0x7A) \<or> (0x41 \<le> c \<and> c \<le> 0x5A) \<or> (0x30 \<le> c \<and> c \<le> 0x39)
      \<or> c = 0x5F \<or> c = 0x2D)"

text \<open>\<open>.replace(/[^a-z0-9_\-]/gi, '_')\<close>: each matching code unit becomes an underscore.\<close>

definition replaceUnsafe :: "jsstring \<Rightarrow> jsstring" where
  "replaceUnsafe s = map (\<lambda>c. if isFolderChar c then c else 0x5F) s"

text \<open>
  \<open>.replace(/_+/g, '_')\<close>: scanning from the left, each maximal run of underscores (the
  greedy match of \<open>_+\<close>) is replaced by one underscore.
\<close>

function collapseUnderscores :: "jsstring \<Rightarrow> jsstring" where
  "collapseUnderscores [] = []"
| "collapseUnderscores (c # cs) =
     (if c = 0x5F then 0x5F # collapseUnderscores (dropWhile (\<lambda>d. d = 0x5F) cs)
      else c # collapseUnderscores cs)"
  by pat_completeness auto
termination
  by (relation "measure length") (auto simp: length_dropWhile_le less_Suc_eq_le)

text \<open>The three exporter classes each carry their own copy of \<open>sanitizeFolderName\<close>.\<close>

definition Mbox_sanitizeFolderName :: "jsstring \<Rightarrow> jsstring" where
  "Mbox_sanitizeFolderName folder = toLowerCase (collapseUnderscores (replaceUnsafe folder))"

definition Eml_sanitizeFolderName :: "jsstring \<Rightarrow> jsstring" where
  "Eml_sanitizeFolderName folder = toLowerCase (collapseUnderscores (replaceUnsafe folder))"

definition Json_sanitizeFolderName :: "jsstring \<Rightarrow> jsstring" where
  "Json_sanitizeFolderName folder = toLowerCase (collapseUnderscores (replaceUnsafe folder))"

subsection \<open>The sanitization as the specification words it\<close>

text \<open>
  The specification's wording, step by step: a character is kept when it is a letter, a
  digit, \<open>_\<close> or \<open>-\<close> and replaced with \<open>_\<close> otherwise; of two adjacent underscores the
  first is dropped, so a run shrinks to one; letters are lower-cased.
\<close>

definition spec_allowed :: "jschar set" where
  "spec_allowed = set (str ''abcdefghijklmnopqrstuvwxyzABCDEFGHIJKLMNOPQRSTUVWXYZ0123456789_-'')"

fun spec_squeeze :: "jsstring \<Rightarrow> jsstring" where
  "spec_squeeze (a # b # r) =
     (if a = 0x5F \<and> b = 0x5F then spec_squeeze (b # r) else a # spec_squeeze (b # r))"
| "spec_squeeze r = r"

definition spec_lower :: "jschar \<Rightarrow> jschar" where
  "spec_lower c =
     (case List.find (\<lambda>p. fst p = c)
             (zip (str ''ABCDEFGHIJKLMNOPQRSTUVWXYZ'') (str ''abcdefghijklmnopqrstuvwxyz'')) of
        Some p \<Rightarrow> snd p
      | None \<Rightarrow> c)"

definition spec_sanitize :: "jsstring \<Rightarrow> jsstring" where
  "spec_sanitize folder =
     map spec_lower (spec_squeeze (map (\<lambda>c. if c \<in> spec_allowed then c else 0x5F) folder))"

section \<open>The canonical message model\<close>

text \<open>
  \<open>EmailAddress\<close>, \<open>Attachment\<close> and \<open>EmailMessage\<close> of \<open>types.ts\<close>. An optional
  property is an \<open>option\<close>. Field names that are Isabelle keywords or HOL constants carry
  a prime (\<open>id'\<close>, \<open>from'\<close>, \<open>text'\<close>, \<open>size'\<close>). Numbers are integers
  (\<open>uid\<close>, \<open>size\<close>). A \<open>Date\<close> is a time value in milliseconds or the invalid date
  (what \<open>new Date\<close> makes of a string it cannot parse).
\<close>

datatype jsdate = Date int | InvalidDate

record EmailAddress =
  name :: "jsstring option"
  address :: jsstring

record Attachment =
  filename :: jsstring
  contentType :: jsstring
  size' :: int
  content :: "8 word list option"
  contentId :: "jsstring option"

datatype header_value = HString jsstring | HArray "jsstring list"

record EmailMessage =
  id' :: jsstring
  uid :: int
  subject :: jsstring
  from' :: EmailAddress
  to :: "EmailAddress list"
  cc :: "EmailAddress list option"
  bcc :: "EmailAddress list option"
  date :: jsdate
  headers :: "(jsstring \<times> header_value) list"
  text' :: "jsstring option"
  html :: "jsstring option"
  attachments :: "Attachment list"
  raw :: "jsstring option"
  labels :: "jsstring list option"
  folder :: "jsstring option"
  flags :: "jsstring list option"

text \<open>
  \<open>x || d\<close> for an optional string \<open>x\<close>: the default is taken when \<open>x\<close> is
  \<open>undefined\<close>, \<open>null\<close> or the empty string. \<open>x || undefined\<close> is \<open>truthy x\<close>.
\<close>

definition orElse :: "jsstring option \<Rightarrow> jsstring \<Rightarrow> jsstring" where
  "orElse x d = (case x of None \<Rightarrow> d | Some s \<Rightarrow> if s = [] then d else s)"

definition truthy :: "jsstring option \<Rightarrow> jsstring option" where
  "truthy x = (case x of None \<Rightarrow> None | Some s \<Rightarrow> if s = [] then None else Some s)"

definition NoSubject :: jsstring where
  "NoSubject = str ''(No Subject)''"

section \<open>Errors and the provider base class\<close>

text \<open>
  Every failure of the providers is a JavaScript \<open>Error\<close> with a message; \<open>RangeError\<close>
  is what \<open>Date.prototype.toISOString\<close> throws. The specification's
  \<open>NotConnectedError\<close> is the error \<open>ensureConnected\<close> throws.
\<close>

datatype error = Error jsstring | RangeError jsstring

definition NotConnectedError :: error where
  "NotConnectedError = Error (str ''Provider not connected. Call connect() first.'')"

text \<open>\<open>`${error}`\<close>: the name of the error, a colon and its message.\<close>

fun errorToString :: "error \<Rightarrow> jsstring" where
  "errorToString (Error m) = str ''Error: '' @ m"
| "errorToString (RangeError m) = str ''RangeError: '' @ m"

record BaseEmailProvider =
  connected :: bool

definition ensureConnected :: "'a BaseEmailProvider_scheme \<Rightarrow> error + unit" where
  "ensureConnected this = (if \<not> connected this then Inl NotConnectedError else Inr ())"

text \<open>
  Each data-fetching method starts with \<open>this.ensureConnected()\<close>, outside any
  \<open>try\<close> block, and then talks to the server. \<open>guarded this body\<close> is that shape:
  \<open>body\<close> is the outcome of the rest of the method.
\<close>

definition guarded :: "'a BaseEmailProvider_scheme \<Rightarrow> (error + 'r) \<Rightarrow> error + 'r" where
  "guarded this body = (case ensureConnected this of Inl e \<Rightarrow> Inl e | Inr u \<Rightarrow> body)"

section \<open>The IMAP provider\<close>

text \<open>
  \<open>imap\<close> is the client object of the IMAP library, or \<open>null\<close>. A connection attempt
  ends with the client's \<open>ready\<close> event or with its \<open>error\<close> event.
\<close>

datatype Imap = Imap

record ImapProvider = BaseEmailProvider +
  imap :: "Imap option"

definition ImapProvider_new :: ImapProvider where
  "ImapProvider_new = \<lparr>connected = False, imap = None\<rparr>"

datatype imap_connect_event = ImapReady | ImapError jsstring

fun Imap_connect :: "ImapProvider \<Rightarrow> imap_connect_event \<Rightarrow> ImapProvider \<times> (error + unit)" where
  "Imap_connect this ImapReady = (this\<lparr>imap := Some Imap, connected := True\<rparr>, Inr ())"
| "Imap_connect this (ImapError m) = (this\<lparr>imap := Some Imap, connected := False\<rparr>, Inl (Error m))"

definition Imap_disconnect :: "ImapProvider \<Rightarrow> ImapProvider" where
  "Imap_disconnect this =
     (case imap this of None \<Rightarrow> this | Some c \<Rightarrow> this\<lparr>imap := None, connected := False\<rparr>)"

text \<open>The handlers of the client's \<open>end\<close> event and of a later \<open>error\<close> event.\<close>

definition Imap_onEnd :: "ImapProvider \<Rightarrow> ImapProvider" where
  "Imap_onEnd this = this\<lparr>connected := False\<rparr>"

text \<open>
  \<open>testConnection\<close>: the whole body sits in \<open>try\<close>, and the \<open>catch\<close> returns
  \<open>false\<close>. The result is \<open>Inr b\<close> when the method returns \<open>b\<close> and \<open>Inl e\<close> when it
  throws \<open>e\<close>.
\<close>

definition Imap_testConnection ::
  "ImapProvider \<Rightarrow> imap_connect_event \<Rightarrow> ImapProvider \<times> (error + bool)" where
  "Imap_testConnection this ev =
     (case Imap_connect this ev of
        (this1, Inl e) \<Rightarrow> (this1, Inr False)
      | (this1, Inr u) \<Rightarrow> (Imap_disconnect this1, Inr True))"

definition Imap_getFolders :: "ImapProvider \<Rightarrow> (error + 'r) \<Rightarrow> error + 'r" where
  "Imap_getFolders this getBoxes = guarded this getBoxes"

definition Imap_getMessage :: "ImapProvider \<Rightarrow> (error + 'r) \<Rightarrow> error + 'r" where
  "Imap_getMessage this fetched = guarded this fetched"

definition Imap_uploadMessages :: "ImapProvider \<Rightarrow> (error + unit) \<Rightarrow> error + unit" where
  "Imap_uploadMessages this appended = guarded this appended"

definition Imap_createFolder :: "ImapProvider \<Rightarrow> (error + unit) \<Rightarrow> error + unit" where
  "Imap_createFolder this addBox = guarded this addBox"

definition Imap_deleteFolder :: "ImapProvider \<Rightarrow> (error + unit) \<Rightarrow> error + unit" where
  "Imap_deleteFolder this delBox = guarded this delBox"

subsection \<open>Fetching and normalizing messages\<close>

text \<open>\<open>`${uid}`\<close>: a whole number in decimal.\<close>

function digitsOf :: "nat \<Rightarrow> jsstring" where
  "digitsOf n = (if n < 10 then [0x30 + of_nat n] else digitsOf (n div 10) @ [0x30 + of_nat (n mod 10)])"
  by pat_completeness auto
termination
  by (relation "measure id") auto

definition numberToString :: "int \<Rightarrow> jsstring" where
  "numberToString i = (if i < 0 then 0x2D # digitsOf (nat (- i)) else digitsOf (nat i))"

text \<open>
  What the MIME parser returns for one message. \<open>parsed_from\<close>, \<open>parsed_to\<close>,
  \<open>parsed_cc\<close> and \<open>parsed_bcc\<close> are the \<open>value\<close> arrays of the address objects,
  \<open>None\<close> when the address object or its array is missing.
\<close>

record ParsedMail =
  parsed_messageId :: "jsstring option"
  parsed_subject :: "jsstring option"
  parsed_from :: "EmailAddress list option"
  parsed_to :: "EmailAddress list option"
  parsed_cc :: "EmailAddress list option"
  parsed_bcc :: "EmailAddress list option"
  parsed_date :: "jsdate option"
  parsed_headers :: "(jsstring \<times> header_value) list option"
  parsed_text :: "jsstring option"
  parsed_html :: "jsstring option"
  parsed_attachments :: "Attachment list option"
  parsed_raw :: "jsstring option"

text \<open>\<open>ImapProvider.parseMessage\<close>; \<open>now\<close> is the value of \<open>new Date()\<close>.\<close>

definition Imap_parseMessage :: "jsdate \<Rightarrow> ParsedMail \<Rightarrow> int \<Rightarrow> jsstring \<Rightarrow> EmailMessage" where
  "Imap_parseMessage now parsed uid0 folder0 =
     \<lparr> id' = orElse (parsed_messageId parsed) (numberToString uid0),
       uid = uid0,
       subject = orElse (parsed_subject parsed) (str ''(No Subject)''),
       from' = (case parsed_from parsed of
                  Some (a # as) \<Rightarrow> a
                | _ \<Rightarrow> \<lparr>name = None, address = str ''unknown''\<rparr>),
       to = (case parsed_to parsed of Some as \<Rightarrow> as | None \<Rightarrow> []),
       cc = parsed_cc parsed,
       bcc = parsed_bcc parsed,
       date = (case parsed_date parsed of Some d \<Rightarrow> d | None \<Rightarrow> now),
       headers = (case parsed_headers parsed of Some h \<Rightarrow> h | None \<Rightarrow> []),
       text' = parsed_text parsed,
       html = parsed_html parsed,
       attachments =
         map (\<lambda>att. \<lparr>filename = filename att, contentType = contentType att, size' = size' att,
                      content = content att, contentId = contentId att\<rparr>)
           (case parsed_attachments parsed of Some as \<Rightarrow> as | None \<Rightarrow> []),
       raw = parsed_raw parsed,
       labels = None,
       folder = Some folder0,
       flags = Some [] \<rparr>"

text \<open>
  \<open>ImapProvider.getMessages\<close>. \<open>openBox\<close> is the answer to opening the folder
  read-only: an error or \<open>box.messages.total\<close>. \<open>seqFetch\<close> is the library's
  \<open>seq.fetch\<close>: for a range it delivers an error or, per message, the uid and the
  outcome of the MIME parser (\<open>None\<close> when parsing throws; the message is then
  skipped). The first component of the result lists the ranges \<open>start:end\<close> for which a
  fetch was issued.
\<close>

definition Imap_getMessages ::
  "ImapProvider \<Rightarrow> (error + int) \<Rightarrow> (int \<times> int \<Rightarrow> error + (int \<times> ParsedMail option) list)
     \<Rightarrow> jsdate \<Rightarrow> jsstring \<Rightarrow> int \<Rightarrow> (int \<times> int) list \<times> (error + EmailMessage list)" where
  "Imap_getMessages this openBox seqFetch now folder0 limit =
     (case ensureConnected this of
        Inl e \<Rightarrow> ([], Inl e)
      | Inr u \<Rightarrow>
          (case openBox of
             Inl err \<Rightarrow> ([], Inl err)
           | Inr totalMessages \<Rightarrow>
               if totalMessages = 0 then ([], Inr [])
               else
                 let start = (if limit > 0 \<and> limit < totalMessages
                              then totalMessages - limit + 1 else 1);
                     end' = totalMessages
                 in ([(start, end')],
                     case seqFetch (start, end') of
                       Inl err \<Rightarrow> Inl err
                     | Inr fetched \<Rightarrow>
                         Inr (concat (map (\<lambda>(uid0, p). case p of
                                              None \<Rightarrow> []
                                            | Some parsed \<Rightarrow> [Imap_parseMessage now parsed uid0 folder0])
                                        fetched)))))"

section \<open>The Gmail provider\<close>

datatype GmailClient = GmailClient

record GmailProvider = BaseEmailProvider +
  gmail :: "GmailClient option"

definition GmailProvider_new :: GmailProvider where
  "GmailProvider_new = \<lparr>connected = False, gmail = None\<rparr>"

text \<open>A connection attempt fetches the profile; the call returns or throws.\<close>

datatype gmail_profile = ProfileOk | ProfileError error

fun Gmail_connect :: "GmailProvider \<Rightarrow> gmail_profile \<Rightarrow> GmailProvider \<times> (error + unit)" where
  "Gmail_connect this ProfileOk = (this\<lparr>gmail := Some GmailClient, connected := True\<rparr>, Inr ())"
| "Gmail_connect this (ProfileError e) =
     (this\<lparr>gmail := Some GmailClient, connected := False\<rparr>,
      Inl (Error (str ''Failed to connect to Gmail: '' @ errorToString e)))"

definition Gmail_disconnect :: "GmailProvider \<Rightarrow> GmailProvider" where
  "Gmail_disconnect this = this\<lparr>gmail := None, connected := False\<rparr>"

definition Gmail_testConnection ::
  "GmailProvider \<Rightarrow> gmail_profile \<Rightarrow> GmailProvider \<times> (error + bool)" where
  "Gmail_testConnection this p =
     (case Gmail_connect this p of
        (this1, Inl e) \<Rightarrow> (this1, Inr False)
      | (this1, Inr u) \<Rightarrow> (this1, Inr True))"

definition Gmail_getFolders :: "GmailProvider \<Rightarrow> (error + 'r) \<Rightarrow> error + 'r" where
  "Gmail_getFolders this listed = guarded this listed"

definition Gmail_getMessages :: "GmailProvider \<Rightarrow> (error + 'r) \<Rightarrow> error + 'r" where
  "Gmail_getMessages this listed = guarded this listed"

definition Gmail_getMessage :: "GmailProvider \<Rightarrow> (error + 'r) \<Rightarrow> error + 'r" where
  "Gmail_getMessage this got = guarded this got"

definition Gmail_uploadMessages :: "GmailProvider \<Rightarrow> (error + unit) \<Rightarrow> error + unit" where
  "Gmail_uploadMessages this imported = guarded this imported"

definition Gmail_createFolder :: "GmailProvider \<Rightarrow> (error + unit) \<Rightarrow> error + unit" where
  "Gmail_createFolder this created = guarded this created"

definition Gmail_deleteFolder :: "GmailProvider \<Rightarrow> (error + unit) \<Rightarrow> error + unit" where
  "Gmail_deleteFolder this deleted = guarded this deleted"

text \<open>
  A message of the Gmail API, as far as its headers go: \<open>payload_headers\<close> is
  \<open>message.payload?.headers\<close>, each header a name and a value, either of which may be
  missing.
\<close>

record GmailMessage =
  gmail_id :: "jsstring option"
  payload_headers :: "(jsstring option \<times> jsstring option) list option"

text \<open>The local function \<open>getHeader\<close> of \<open>parseGmailMessage\<close>.\<close>

definition getHeader :: "GmailMessage \<Rightarrow> jsstring \<Rightarrow> jsstring" where
  "getHeader message name0 =
     (let headers0 = (case payload_headers message of Some hs \<Rightarrow> hs | None \<Rightarrow> [])
      in case List.find (\<lambda>h. case fst h of None \<Rightarrow> False
                                | Some n \<Rightarrow> toLowerCase n = toLowerCase name0) headers0 of
           None \<Rightarrow> []
         | Some h \<Rightarrow> orElse (snd h) [])"

text \<open>The \<open>subject\<close> property of the object \<open>parseGmailMessage\<close> returns.\<close>

definition parseGmailMessage_subject :: "GmailMessage \<Rightarrow> jsstring" where
  "parseGmailMessage_subject message = getHeader message (str ''Subject'')"

section \<open>The JMAP provider\<close>

record JmapSession =
  apiUrl :: jsstring
  downloadUrl :: jsstring
  uploadUrl :: jsstring
  primaryAccounts :: "jsstring \<rightharpoonup> jsstring"

record JmapMailbox =
  mailbox_id :: jsstring
  mailbox_name :: jsstring

record JmapProvider = BaseEmailProvider +
  session :: "JmapSession option"
  primaryAccountId :: "jsstring option"
  mailboxCache :: "jsstring \<rightharpoonup> JmapMailbox"

definition JmapProvider_new :: JmapProvider where
  "JmapProvider_new =
     \<lparr>connected = False, session = None, primaryAccountId = None, mailboxCache = Map.empty\<rparr>"

text \<open>
  What fetching the session resource can do: \<open>fetch\<close> throws, the response is not
  \<open>ok\<close> (status and status text), reading the body as JSON throws, or a session object
  arrives.
\<close>

datatype jmap_session_fetch =
    FetchThrows error
  | ResponseNotOk jsstring jsstring
  | JsonThrows error
  | SessionObject JmapSession

text \<open>
  \<open>JmapProvider.connect\<close>. Everything runs inside \<open>try\<close>; the \<open>catch\<close> clears the
  flag and throws a new error that quotes the caught one. The session is assigned before
  the mail account is looked up, so it stays assigned when the lookup fails.
\<close>

definition Jmap_connectFailed :: "JmapProvider \<Rightarrow> error \<Rightarrow> JmapProvider \<times> (error + unit)" where
  "Jmap_connectFailed this e =
     (this\<lparr>connected := False\<rparr>, Inl (Error (str ''Failed to connect to JMAP: '' @ errorToString e)))"

fun Jmap_connect :: "JmapProvider \<Rightarrow> jmap_session_fetch \<Rightarrow> JmapProvider \<times> (error + unit)" where
  "Jmap_connect this (FetchThrows e) = Jmap_connectFailed this e"
| "Jmap_connect this (ResponseNotOk status statusText) =
     Jmap_connectFailed this
       (Error (str ''JMAP session request failed: '' @ status @ str '' '' @ statusText))"
| "Jmap_connect this (JsonThrows e) = Jmap_connectFailed this e"
| "Jmap_connect this (SessionObject s) =
     (let this1 = this\<lparr>session := Some s\<rparr>
      in case truthy (primaryAccounts s (str ''urn:ietf:params:jmap:mail'')) of
           None \<Rightarrow> Jmap_connectFailed this1 (Error (str ''No mail account found in JMAP session''))
         | Some accountId \<Rightarrow>
             (this1\<lparr>primaryAccountId := Some accountId, connected := True\<rparr>, Inr ()))"

definition Jmap_disconnect :: "JmapProvider \<Rightarrow> JmapProvider" where
  "Jmap_disconnect this =
     this\<lparr>session := None, primaryAccountId := None, mailboxCache := Map.empty, connected := False\<rparr>"

definition Jmap_testConnection ::
  "JmapProvider \<Rightarrow> jmap_session_fetch \<Rightarrow> JmapProvider \<times> (error + bool)" where
  "Jmap_testConnection this f =
     (case Jmap_connect this f of
        (this1, Inl e) \<Rightarrow> (this1, Inr False)
      | (this1, Inr u) \<Rightarrow> (Jmap_disconnect this1, Inr True))"

text \<open>
  \<open>getFolders\<close> also refills the mailbox cache from the mailboxes the server lists;
  \<open>mailboxGet\<close> is the outcome of the request, the listed mailboxes with the folders
  built from them.
\<close>

definition Jmap_getFolders ::
  "JmapProvider \<Rightarrow> (error + JmapMailbox list \<times> 'r) \<Rightarrow> JmapProvider \<times> (error + 'r)" where
  "Jmap_getFolders this mailboxGet =
     (case guarded this mailboxGet of
        Inl e \<Rightarrow> (this, Inl e)
      | Inr (mailboxes, folders) \<Rightarrow>
          (this\<lparr>mailboxCache :=
                   foldl (\<lambda>m mb. m(mailbox_id mb \<mapsto> mb)) Map.empty mailboxes\<rparr>,
           Inr folders))"

definition Jmap_getMessages :: "JmapProvider \<Rightarrow> (error + 'r) \<Rightarrow> error + 'r" where
  "Jmap_getMessages this queried = guarded this queried"

definition Jmap_getMessage :: "JmapProvider \<Rightarrow> (error + 'r) \<Rightarrow> error + 'r" where
  "Jmap_getMessage this got = guarded this got"

definition Jmap_uploadMessages :: "JmapProvider \<Rightarrow> (error + unit) \<Rightarrow> error + unit" where
  "Jmap_uploadMessages this imported = guarded this imported"

definition Jmap_createFolder :: "JmapProvider \<Rightarrow> (error + unit) \<Rightarrow> error + unit" where
  "Jmap_createFolder this created = guarded this created"

definition Jmap_deleteFolder :: "JmapProvider \<Rightarrow> (error + unit) \<Rightarrow> error + unit" where
  "Jmap_deleteFolder this destroyed = guarded this destroyed"

subsection \<open>Normalizing a JMAP email\<close>

record JmapEmailAddress =
  jmap_name :: "jsstring option"
  email :: jsstring

record JmapBodyPart =
  partId :: "jsstring option"
  part_name :: "jsstring option"
  part_type :: jsstring
  part_size :: int
  cid :: "jsstring option"

record JmapEmail =
  jmap_id :: jsstring
  mailboxIds :: "(jsstring \<times> bool) list option"
  jmap_keywords :: "(jsstring \<rightharpoonup> bool) option"
  receivedAt :: jsstring
  jmap_from :: "JmapEmailAddress list option"
  jmap_to :: "JmapEmailAddress list option"
  jmap_cc :: "JmapEmailAddress list option"
  jmap_bcc :: "JmapEmailAddress list option"
  jmap_subject :: "jsstring option"
  bodyValues :: "(jsstring \<rightharpoonup> jsstring) option"
  textBody :: "JmapBodyPart list option"
  htmlBody :: "JmapBodyPart list option"
  jmap_attachments :: "JmapBodyPart list option"

text \<open>
  The two body loops: the value of the first part whose \<open>partId\<close> is set and has an
  entry in \<open>bodyValues\<close> (the map gives the \<open>value\<close> of each body value).
\<close>

fun firstBodyValue :: "(jsstring \<rightharpoonup> jsstring) \<Rightarrow> JmapBodyPart list \<Rightarrow> jsstring option" where
  "firstBodyValue values [] = None"
| "firstBodyValue values (part # parts) =
     (case (case truthy (partId part) of None \<Rightarrow> None | Some pid \<Rightarrow> values pid) of
        Some v \<Rightarrow> Some v
      | None \<Rightarrow> firstBodyValue values parts)"

definition extractBody ::
  "JmapBodyPart list option \<Rightarrow> (jsstring \<rightharpoonup> jsstring) option \<Rightarrow> jsstring option" where
  "extractBody body values0 =
     (case (body, values0) of
        (Some parts, Some values) \<Rightarrow> firstBodyValue values parts
      | _ \<Rightarrow> None)"

definition keywordSet :: "JmapEmail \<Rightarrow> jsstring \<Rightarrow> bool" where
  "keywordSet email0 k = (case jmap_keywords email0 of None \<Rightarrow> False | Some kw \<Rightarrow> kw k = Some True)"

definition convertAddress :: "JmapEmailAddress \<Rightarrow> EmailAddress" where
  "convertAddress addr = \<lparr>name = truthy (jmap_name addr), address = email addr\<rparr>"

text \<open>\<open>email.id.replace(/\D/g, '')\<close> and \<open>parseInt(...) || 0\<close> on the digits left.\<close>

definition isDigit :: "jschar \<Rightarrow> bool" where
  "isDigit c = (0x30 \<le> c \<and> c \<le> 0x39)"

definition parseDigits :: "jsstring \<Rightarrow> int" where
  "parseDigits ds = foldl (\<lambda>n c. 10 * n + uint (c - 0x30)) 0 ds"

text \<open>
  \<open>JmapProvider.convertJmapEmail\<close>; \<open>parseDate\<close> is \<open>new Date(string)\<close>. The \<open>uid\<close>
  is exact for ids with at most 15 digits (beyond that JavaScript rounds to a double).
\<close>

definition convertJmapEmail ::
  "(jsstring \<Rightarrow> jsdate) \<Rightarrow> JmapProvider \<Rightarrow> JmapEmail \<Rightarrow> jsstring \<Rightarrow> EmailMessage" where
  "convertJmapEmail parseDate this email0 folder0 =
     (let text0 = extractBody (textBody email0) (bodyValues email0);
          html0 = extractBody (htmlBody email0) (bodyValues email0);
          flags0 = (if keywordSet email0 (str ''$seen'') then [0x5C # str ''Seen''] else [])
                 @ (if keywordSet email0 (str ''$flagged'') then [0x5C # str ''Flagged''] else [])
                 @ (if keywordSet email0 (str ''$answered'') then [0x5C # str ''Answered''] else [])
                 @ (if keywordSet email0 (str ''$draft'') then [0x5C # str ''Draft''] else []);
          attachments0 =
            map (\<lambda>att. \<lparr>filename = orElse (part_name att) (str ''attachment''),
                         contentType = part_type att, size' = part_size att,
                         content = None, contentId = truthy (cid att)\<rparr>)
              (case jmap_attachments email0 of Some as \<Rightarrow> as | None \<Rightarrow> []);
          labels0 =
            concat (map (\<lambda>(mailboxId, b). case mailboxCache this mailboxId of
                                             Some mailbox \<Rightarrow> [mailbox_name mailbox]
                                           | None \<Rightarrow> [])
                      (case mailboxIds email0 of Some ids \<Rightarrow> ids | None \<Rightarrow> []))
      in \<lparr> id' = jmap_id email0,
           uid = parseDigits (filter isDigit (jmap_id email0)),
           subject = orElse (jmap_subject email0) (str ''(No Subject)''),
           from' = (case jmap_from email0 of
                      Some (a # as) \<Rightarrow> convertAddress a
                    | _ \<Rightarrow> \<lparr>name = None, address = str ''unknown''\<rparr>),
           to = map convertAddress (case jmap_to email0 of Some as \<Rightarrow> as | None \<Rightarrow> []),
           cc = Some (map convertAddress (case jmap_cc email0 of Some as \<Rightarrow> as | None \<Rightarrow> [])),
           bcc = Some (map convertAddress (case jmap_bcc email0 of Some as \<Rightarrow> as | None \<Rightarrow> [])),
           date = parseDate (receivedAt email0),
           headers = [],
           text' = text0,
           html = html0,
           attachments = attachments0,
           raw = None,
           labels = Some labels0,
           folder = Some folder0,
           flags = Some flags0 \<rparr>)"

section \<open>Using a provider: sequences of calls\<close>

text \<open>
  A provider instance is used by one sequence of calls at a time. The calls that can
  change the instance are \<open>connect\<close>, \<open>disconnect\<close> and \<open>testConnection\<close>, each with
  what the server does; for IMAP also the client's \<open>end\<close> event, and for JMAP
  \<open>getFolders\<close>, which refills the cache. The other data-fetching methods leave the
  instance as it is.
\<close>

datatype imap_action =
    ImapConnect imap_connect_event
  | ImapDisconnect
  | ImapTestConnection imap_connect_event
  | ImapEndEvent
  | ImapDataCall

fun Imap_step :: "ImapProvider \<Rightarrow> imap_action \<Rightarrow> ImapProvider" where
  "Imap_step this (ImapConnect ev) = fst (Imap_connect this ev)"
| "Imap_step this ImapDisconnect = Imap_disconnect this"
| "Imap_step this (ImapTestConnection ev) = fst (Imap_testConnection this ev)"
| "Imap_step this ImapEndEvent = Imap_onEnd this"
| "Imap_step this ImapDataCall = this"

definition Imap_run :: "ImapProvider \<Rightarrow> imap_action list \<Rightarrow> ImapProvider" where
  "Imap_run this actions = foldl Imap_step this actions"

datatype gmail_action =
    GmailConnect gmail_profile
  | GmailDisconnect
  | GmailTestConnection gmail_profile
  | GmailDataCall

fun Gmail_step :: "GmailProvider \<Rightarrow> gmail_action \<Rightarrow> GmailProvider" where
  "Gmail_step this (GmailConnect p) = fst (Gmail_connect this p)"
| "Gmail_step this GmailDisconnect = Gmail_disconnect this"
| "Gmail_step this (GmailTestConnection p) = fst (Gmail_testConnection this p)"
| "Gmail_step this GmailDataCall = this"

definition Gmail_run :: "GmailProvider \<Rightarrow> gmail_action list \<Rightarrow> GmailProvider" where
  "Gmail_run this actions = foldl Gmail_step this actions"

datatype jmap_action =
    JmapConnect jmap_session_fetch
  | JmapDisconnect
  | JmapTestConnection jmap_session_fetch
  | JmapGetFolders "error + JmapMailbox list \<times> unit"
  | JmapDataCall

fun Jmap_step :: "JmapProvider \<Rightarrow> jmap_action \<Rightarrow> JmapProvider" where
  "Jmap_step this (JmapConnect f) = fst (Jmap_connect this f)"
| "Jmap_step this JmapDisconnect = Jmap_disconnect this"
| "Jmap_step this (JmapTestConnection f) = fst (Jmap_testConnection this f)"
| "Jmap_step this (JmapGetFolders r) = fst (Jmap_getFolders this r)"
| "Jmap_step this JmapDataCall = this"

definition Jmap_run :: "JmapProvider \<Rightarrow> jmap_action list \<Rightarrow> JmapProvider" where
  "Jmap_run this actions = foldl Jmap_step this actions"

text \<open>Whether a call makes a connection attempt that succeeds.\<close>

definition succeeded :: "error + 'a \<Rightarrow> bool" where
  "succeeded r = (case r of Inl e \<Rightarrow> False | Inr v \<Rightarrow> True)"

fun Imap_connects :: "imap_action \<Rightarrow> bool" where
  "Imap_connects (ImapConnect ev) = succeeded (snd (Imap_connect ImapProvider_new ev))"
| "Imap_connects (ImapTestConnection ev) = succeeded (snd (Imap_connect ImapProvider_new ev))"
| "Imap_connects a = False"

fun Gmail_connects :: "gmail_action \<Rightarrow> bool" where
  "Gmail_connects (GmailConnect p) = succeeded (snd (Gmail_connect GmailProvider_new p))"
| "Gmail_connects (GmailTestConnection p) = succeeded (snd (Gmail_connect GmailProvider_new p))"
| "Gmail_connects a = False"

fun Jmap_connects :: "jmap_action \<Rightarrow> bool" where
  "Jmap_connects (JmapConnect f) = succeeded (snd (Jmap_connect JmapProvider_new f))"
| "Jmap_connects (JmapTestConnection f) = succeeded (snd (Jmap_connect JmapProvider_new f))"
| "Jmap_connects a = False"

section \<open>The JSON exporter\<close>

text \<open>
  JavaScript values as far as the export builds them. \<open>JBuffer\<close> is a \<open>Buffer\<close> of
  bytes. An object is the list of its properties in order; an optional property that is
  missing is listed with the value \<open>JUndefined\<close>.
\<close>

datatype jsval =
    JUndefined
  | JBool bool
  | JNumber int
  | JString jsstring
  | JBuffer "8 word list"
  | JArray "jsval list"
  | JObject "(jsstring \<times> jsval) list"

definition optional :: "('a \<Rightarrow> jsval) \<Rightarrow> 'a option \<Rightarrow> jsval" where
  "optional f x = (case x of None \<Rightarrow> JUndefined | Some v \<Rightarrow> f v)"

definition addressValue :: "EmailAddress \<Rightarrow> jsval" where
  "addressValue a =
     JObject [(str ''name'', optional JString (name a)), (str ''address'', JString (address a))]"

definition headersValue :: "(jsstring \<times> header_value) list \<Rightarrow> jsval" where
  "headersValue hs =
     JObject (map (\<lambda>(k, v). (k, case v of HString s \<Rightarrow> JString s
                                      | HArray xs \<Rightarrow> JArray (map JString xs))) hs)"

text \<open>
  \<open>Date.prototype.toISOString\<close> throws a \<open>RangeError\<close> on the invalid date (the
  message is the engine's, here that of Bun); \<open>formatISO\<close> is the rendering of a valid
  time value.
\<close>

definition Date_toISOString :: "(int \<Rightarrow> jsstring) \<Rightarrow> jsdate \<Rightarrow> error + jsstring" where
  "Date_toISOString formatISO d =
     (case d of InvalidDate \<Rightarrow> Inl (RangeError (str ''Invalid Date''))
              | Date t \<Rightarrow> Inr (formatISO t))"

text \<open>The object the inner \<open>map\<close> of \<open>messagesToJson\<close> builds for an attachment.\<close>

definition attachmentToJson :: "Attachment \<Rightarrow> jsval" where
  "attachmentToJson att =
     JObject [(str ''filename'', JString (filename att)),
              (str ''contentType'', JString (contentType att)),
              (str ''size'', JNumber (size' att)),
              (str ''hasContent'', JBool (content att \<noteq> None))]"

text \<open>
  The object literal \<open>messagesToJson\<close> builds for one message, given the text of its
  date.
\<close>

definition messageObject :: "jsstring \<Rightarrow> EmailMessage \<Rightarrow> jsval" where
  "messageObject isoText msg =
     JObject
       [(str ''id'', JString (id' msg)),
        (str ''uid'', JNumber (uid msg)),
        (str ''subject'', JString (subject msg)),
        (str ''from'', addressValue (from' msg)),
        (str ''to'', JArray (map addressValue (to msg))),
        (str ''cc'', optional (\<lambda>as. JArray (map addressValue as)) (cc msg)),
        (str ''bcc'', optional (\<lambda>as. JArray (map addressValue as)) (bcc msg)),
        (str ''date'', JString isoText),
        (str ''headers'', headersValue (headers msg)),
        (str ''text'', optional JString (text' msg)),
        (str ''html'', optional JString (html msg)),
        (str ''attachments'', JArray (map attachmentToJson (attachments msg))),
        (str ''labels'', optional (\<lambda>ls. JArray (map JString ls)) (labels msg)),
        (str ''folder'', optional JString (folder msg)),
        (str ''flags'', optional (\<lambda>fs. JArray (map JString fs)) (flags msg))]"

text \<open>
  The callback of the outer \<open>map\<close>: the object, or the error \<open>msg.date.toISOString()\<close>
  throws (nothing else in the literal can throw or has an effect).
\<close>

definition messageToJson :: "(int \<Rightarrow> jsstring) \<Rightarrow> EmailMessage \<Rightarrow> error + jsval" where
  "messageToJson formatISO msg =
     (case Date_toISOString formatISO (date msg) of
        Inl e \<Rightarrow> Inl e
      | Inr isoText \<Rightarrow> Inr (messageObject isoText msg))"

text \<open>\<open>JsonExporter.messagesToJson\<close>: the first message that throws ends the \<open>map\<close>.\<close>

fun messagesToJson :: "(int \<Rightarrow> jsstring) \<Rightarrow> EmailMessage list \<Rightarrow> error + jsval list" where
  "messagesToJson formatISO [] = Inr []"
| "messagesToJson formatISO (msg # msgs) =
     (case messageToJson formatISO msg of
        Inl e \<Rightarrow> Inl e
      | Inr obj \<Rightarrow>
          (case messagesToJson formatISO msgs of
             Inl e \<Rightarrow> Inl e
           | Inr objs \<Rightarrow> Inr (obj # objs)))"





section \<open>The MBOX exporter\<close>

text \<open>
  What the runtime supplies: the renderings of a valid time value by
  \<open>Date.prototype.toString\<close> and \<open>toUTCString\<close>, the base64 text of a buffer, and the
  string the \<open>n\<close>-th call of \<open>generateBoundary\<close> returns (it is built from the clock and
  a random number).
\<close>

record runtime =
  formatLocal :: "int \<Rightarrow> jsstring"
  formatUTC :: "int \<Rightarrow> jsstring"
  base64 :: "8 word list \<Rightarrow> jsstring"
  boundaryAt :: "nat \<Rightarrow> jsstring"

definition Date_toString :: "runtime \<Rightarrow> jsdate \<Rightarrow> jsstring" where
  "Date_toString rt d = (case d of InvalidDate \<Rightarrow> str ''Invalid Date'' | Date t \<Rightarrow> formatLocal rt t)"

definition Date_toUTCString :: "runtime \<Rightarrow> jsdate \<Rightarrow> jsstring" where
  "Date_toUTCString rt d = (case d of InvalidDate \<Rightarrow> str ''Invalid Date'' | Date t \<Rightarrow> formatUTC rt t)"

text \<open>\<open>Array.prototype.join\<close>.\<close>

fun join :: "jsstring \<Rightarrow> jsstring list \<Rightarrow> jsstring" where
  "join sep [] = []"
| "join sep [x] = x"
| "join sep (x # y # ys) = x @ sep @ join sep (y # ys)"

definition formatAddress :: "EmailAddress \<Rightarrow> jsstring" where
  "formatAddress addr =
     (case truthy (name addr) of
        Some n \<Rightarrow> str ''\"'' @ n @ str ''\" <'' @ address addr @ str ''>''
      | None \<Rightarrow> address addr)"

definition createFromLine :: "runtime \<Rightarrow> EmailMessage \<Rightarrow> jsstring" where
  "createFromLine rt message =
     (let sender = orElse (Some (address (from' message))) (str ''unknown'');
          date0 = Date_toString rt (date message)
      in str ''From '' @ sender @ str '' '' @ date0)"

text \<open>\<open>`${value}`\<close> for a header value: an array is joined with commas.\<close>

definition headerValueToString :: "header_value \<Rightarrow> jsstring" where
  "headerValueToString v = (case v of HString s \<Rightarrow> s | HArray xs \<Rightarrow> join (str '','') xs)"

definition alreadyAdded :: "jsstring list" where
  "alreadyAdded = [str ''from'', str ''to'', str ''cc'', str ''subject'', str ''date'',
                   str ''message-id'', str ''content-type'']"

text \<open>
  The last loop of \<open>buildHeaders\<close>: the headers of the original message that were not
  added already, in the order of \<open>Object.entries\<close>.
\<close>

definition additionalHeaders :: "EmailMessage \<Rightarrow> jsstring list" where
  "additionalHeaders message =
     concat (map (\<lambda>(key, value).
                    if toLowerCase key \<in> set alreadyAdded then []
                    else [key @ str '': '' @ headerValueToString value])
               (headers message))"

text \<open>
  \<open>buildHeaders\<close>; \<open>k\<close> counts the boundaries generated so far, and the second
  component of the result is the count afterwards.
\<close>

definition buildHeaders :: "runtime \<Rightarrow> nat \<Rightarrow> EmailMessage \<Rightarrow> jsstring list \<times> nat" where
  "buildHeaders rt k message =
     (let hasAttachments = (attachments message \<noteq> [])
      in ([str ''From: '' @ formatAddress (from' message),
           str ''To: '' @ join (str '', '') (map formatAddress (to message))]
          @ (case cc message of
               Some (c # cs) \<Rightarrow> [str ''Cc: '' @ join (str '', '') (map formatAddress (c # cs))]
             | _ \<Rightarrow> [])
          @ [str ''Subject: '' @ subject message,
             str ''Date: '' @ Date_toUTCString rt (date message),
             str ''Message-ID: '' @ id' message]
          @ [if hasAttachments
               then str ''Content-Type: multipart/mixed; boundary=\"'' @ boundaryAt rt k @ str ''\"''
             else if truthy (html message) \<noteq> None
               then str ''Content-Type: text/html; charset=utf-8''
             else str ''Content-Type: text/plain; charset=utf-8'']
          @ additionalHeaders message,
          if hasAttachments then k + 1 else k))"

definition buildMultipartBody :: "runtime \<Rightarrow> EmailMessage \<Rightarrow> jsstring \<Rightarrow> jsstring list" where
  "buildMultipartBody rt message boundary =
     [str ''--'' @ boundary]
     @ (case truthy (html message) of
          Some h \<Rightarrow> [str ''Content-Type: text/html; charset=utf-8'', [], h]
        | None \<Rightarrow> [str ''Content-Type: text/plain; charset=utf-8'', [], orElse (text' message) []])
     @ concat (map (\<lambda>attachment.
                      [[],
                       str ''--'' @ boundary,
                       str ''Content-Type: '' @ contentType attachment,
                       str ''Content-Transfer-Encoding: base64'',
                       str ''Content-Disposition: attachment; filename=\"'' @ filename attachment
                         @ str ''\"'',
                       [],
                       case content attachment of
                         Some bytes \<Rightarrow> base64 rt bytes
                       | None \<Rightarrow> str ''[Attachment content not available]''])
                 (attachments message))
     @ [[], str ''--'' @ boundary @ str ''--'']"

text \<open>The body of a message without attachments: \<open>message.html || message.text || ''\<close>.\<close>

definition simpleBody :: "EmailMessage \<Rightarrow> jsstring" where
  "simpleBody message = orElse (html message) (orElse (text' message) [])"

definition reconstructRawMessage :: "runtime \<Rightarrow> nat \<Rightarrow> EmailMessage \<Rightarrow> jsstring \<times> nat" where
  "reconstructRawMessage rt k message =
     (case buildHeaders rt k message of
        (headers0, k1) \<Rightarrow>
          if attachments message \<noteq> []
          then (join [0x0A] (headers0 @ [[]] @ buildMultipartBody rt message (boundaryAt rt k1)),
                k1 + 1)
          else (join [0x0A] (headers0 @ [[]] @ [simpleBody message]), k1))"

text \<open>
  Line terminators of regular expressions: with the \<open>m\<close> flag, \<open>^\<close> matches at the
  start of the string and after each of them; \<open>.\<close> matches anything else.
\<close>

definition isLineTerminator :: "jschar \<Rightarrow> bool" where
  "isLineTerminator c = (c = 0x0A \<or> c = 0x0D \<or> c = 0x2028 \<or> c = 0x2029)"

text \<open>
  \<open>messageContent.replace(/^From /gm, '>From ')\<close>. The scan runs from the left;
  \<open>bol\<close> tells whether the position is at the start of a line. A match is replaced and
  the scan goes on behind it, where the preceding character is the blank of \<open>From \<close>.
\<close>

function escapeFromLines :: "bool \<Rightarrow> jsstring \<Rightarrow> jsstring" where
  "escapeFromLines bol s =
     (if bol \<and> prefix (str ''From '') s then str ''>From '' @ escapeFromLines False (drop 5 s)
      else case s of
             [] \<Rightarrow> []
           | c # cs \<Rightarrow> c # escapeFromLines (isLineTerminator c) cs)"
  by pat_completeness auto
termination
  by (relation "measure (\<lambda>(bol, s). length s)") (auto simp: str_def prefix_def)

declare escapeFromLines.simps [simp del]

definition messageToMboxEntry :: "runtime \<Rightarrow> nat \<Rightarrow> EmailMessage \<Rightarrow> jsstring \<times> nat" where
  "messageToMboxEntry rt k message =
     (let fromLine = createFromLine rt message
      in case (case truthy (raw message) of
                 Some r \<Rightarrow> (r, k)
               | None \<Rightarrow> reconstructRawMessage rt k message) of
           (messageContent, k1) \<Rightarrow>
             (fromLine @ [0x0A] @ escapeFromLines True messageContent @ [0x0A, 0x0A], k1))"

fun messagesToMbox :: "runtime \<Rightarrow> nat \<Rightarrow> EmailMessage list \<Rightarrow> jsstring \<times> nat" where
  "messagesToMbox rt k [] = ([], k)"
| "messagesToMbox rt k (message # messages) =
     (case messageToMboxEntry rt k message of
        (entry, k1) \<Rightarrow>
          (case messagesToMbox rt k1 messages of
             (mbox, k2) \<Rightarrow> (entry @ mbox, k2)))"

section \<open>The MBOX importer\<close>

text \<open>
  White space as \<open>\s\<close> and \<open>String.prototype.trim\<close> see it: the white-space code
  points of the language and the line terminators.
\<close>

definition isWhiteSpace :: "jschar \<Rightarrow> bool" where
  "isWhiteSpace c =
     (c = 0x09 \<or> c = 0x0A \<or> c = 0x0B \<or> c = 0x0C \<or> c = 0x0D \<or> c = 0x20 \<or> c = 0xA0
      \<or> c = 0x1680 \<or> (0x2000 \<le> c \<and> c \<le> 0x200A) \<or> c = 0x2028 \<or> c = 0x2029
      \<or> c = 0x202F \<or> c = 0x205F \<or> c = 0x3000 \<or> c = 0xFEFF)"

definition trim :: "jsstring \<Rightarrow> jsstring" where
  "trim s = rev (dropWhile isWhiteSpace (rev (dropWhile isWhiteSpace s)))"

text \<open>
  \<open>content.split(/^From /m)\<close>: the scan of \<open>escapeFromLines\<close>, cutting at each match.
  \<open>acc\<close> holds the current piece in reverse; the last piece ends with the string.
\<close>

function splitFrom :: "bool \<Rightarrow> jsstring \<Rightarrow> jsstring \<Rightarrow> jsstring list" where
  "splitFrom bol acc s =
     (if bol \<and> prefix (str ''From '') s then rev acc # splitFrom False [] (drop 5 s)
      else case s of
             [] \<Rightarrow> [rev acc]
           | c # cs \<Rightarrow> splitFrom (isLineTerminator c) (c # acc) cs)"
  by pat_completeness auto
termination
  by (relation "measure (\<lambda>(bol, acc, s). length s)") (auto simp: str_def prefix_def)

declare splitFrom.simps [simp del]

text \<open>\<open>s.split(d)\<close> for a separator of one character.\<close>

fun splitOn :: "jschar \<Rightarrow> jsstring \<Rightarrow> jsstring list" where
  "splitOn d [] = [[]]"
| "splitOn d (c # cs) =
     (if c = d then [] # splitOn d cs
      else case splitOn d cs of
             l # ls \<Rightarrow> (c # l) # ls
           | [] \<Rightarrow> [[c]])"

text \<open>\<open>entry.substring(entry.indexOf('\n') + 1)\<close>: the whole entry when it has no line feed.\<close>

definition afterFirstNewline :: "jsstring \<Rightarrow> jsstring" where
  "afterFirstNewline entry =
     (if 0x0A \<in> set entry then tl (dropWhile (\<lambda>c. c \<noteq> 0x0A) entry) else entry)"

subsection \<open>The two regular expressions of the importer\<close>

text \<open>
  A pattern is a sequence of items over character classes, each quantifier greedy:
  one character, \<open>?\<close>, \<open>*\<close>, \<open>+\<close>, and \<open>$\<close> (without the \<open>m\<close> flag: the end of the
  string). \<open>rx_match\<close> matches a pattern at the start of a string as a backtracking
  matcher does: a quantifier first takes a character when it can and gives it back when
  the rest of the pattern then fails. The result lists the text each item consumed.
\<close>

datatype rx = One "jschar \<Rightarrow> bool" | Opt "jschar \<Rightarrow> bool" | Star "jschar \<Rightarrow> bool"
  | Plus "jschar \<Rightarrow> bool" | AtEnd

fun rx_match :: "rx list \<Rightarrow> jsstring \<Rightarrow> jsstring list option" where
  "rx_match [] s = Some []"
| "rx_match (One p # r) [] = None"
| "rx_match (One p # r) (c # cs) =
     (if p c then map_option (\<lambda>m. [c] # m) (rx_match r cs) else None)"
| "rx_match (Opt p # r) [] = map_option (\<lambda>m. [] # m) (rx_match r [])"
| "rx_match (Opt p # r) (c # cs) =
     (case (if p c then rx_match r cs else None) of
        Some m \<Rightarrow> Some ([c] # m)
      | None \<Rightarrow> map_option (\<lambda>m. [] # m) (rx_match r (c # cs)))"
| "rx_match (Star p # r) [] = map_option (\<lambda>m. [] # m) (rx_match r [])"
| "rx_match (Star p # r) (c # cs) =
     (case (if p c then rx_match (Star p # r) cs else None) of
        Some (m # ms) \<Rightarrow> Some ((c # m) # ms)
      | _ \<Rightarrow> map_option (\<lambda>m. [] # m) (rx_match r (c # cs)))"
| "rx_match (Plus p # r) [] = None"
| "rx_match (Plus p # r) (c # cs) =
     (case (if p c then rx_match (Star p # r) cs else None) of
        Some (m # ms) \<Rightarrow> Some ((c # m) # ms)
      | _ \<Rightarrow> None)"
| "rx_match (AtEnd # r) s = (if s = [] then map_option (\<lambda>m. [] # m) (rx_match r []) else None)"

text \<open>An unanchored pattern is tried at each position from the left.\<close>

fun rx_search :: "rx list \<Rightarrow> jsstring \<Rightarrow> jsstring list option" where
  "rx_search pat [] = rx_match pat []"
| "rx_search pat (c # cs) =
     (case rx_match pat (c # cs) of
        Some m \<Rightarrow> Some m
      | None \<Rightarrow> rx_search pat cs)"

text \<open>\<open>/^([^:]+):\s*(.*)$/\<close>, tried at the start only; the groups are the items 0 and 3.\<close>

definition headerPattern :: "rx list" where
  "headerPattern =
     [Plus (\<lambda>c. c \<noteq> 0x3A), One (\<lambda>c. c = 0x3A), Star isWhiteSpace,
      Star (\<lambda>c. \<not> isLineTerminator c), AtEnd]"

text \<open>\<open>/"?([^"]*)"?\s*<(.+)>/\<close>, searched; the groups are the items 1 and 5.\<close>

definition addressPattern :: "rx list" where
  "addressPattern =
     [Opt (\<lambda>c. c = 0x22), Star (\<lambda>c. c \<noteq> 0x22), Opt (\<lambda>c. c = 0x22), Star isWhiteSpace,
      One (\<lambda>c. c = 0x3C), Plus (\<lambda>c. \<not> isLineTerminator c), One (\<lambda>c. c = 0x3E)]"

definition parseAddress :: "jsstring \<Rightarrow> EmailAddress" where
  "parseAddress addr =
     (case rx_search addressPattern addr of
        Some m \<Rightarrow> \<lparr>name = truthy (Some (trim (m ! 1))),
                    address = orElse (Some (trim (m ! 5))) (trim addr)\<rparr>
      | None \<Rightarrow> \<lparr>name = None, address = orElse (Some (trim (trim addr))) (trim addr)\<rparr>)"

definition parseAddresses :: "jsstring \<Rightarrow> EmailAddress list" where
  "parseAddresses addrs =
     (if addrs = [] then [] else map (\<lambda>addr. parseAddress (trim addr)) (splitOn 0x2C addrs))"

text \<open>
  \<open>headers[key] = value\<close> on the object \<open>{}\<close>: a new key goes to the end, a known key
  keeps its place; assigning a string to \<open>__proto__\<close> changes nothing.
\<close>

definition setHeader :: "jsstring \<Rightarrow> jsstring \<Rightarrow> (jsstring \<times> jsstring) list \<Rightarrow> (jsstring \<times> jsstring) list" where
  "setHeader k v hs = (if k = str ''__proto__'' then hs else AList.update k v hs)"

text \<open>
  The header loop of \<open>parseMessage\<close> from line \<open>i\<close> on. An empty line is skipped by
  \<open>if (!line) continue\<close>, before the test for a blank line; a line of white space ends
  the loop and sets \<open>bodyStartIndex\<close>, which is \<open>0\<close> when the loop runs to the end.
\<close>

fun parseHeaderLines ::
  "jsstring list \<Rightarrow> nat \<Rightarrow> (jsstring \<times> jsstring) list \<Rightarrow> (jsstring \<times> jsstring) list \<times> nat" where
  "parseHeaderLines [] i hs = (hs, 0)"
| "parseHeaderLines (line # lines) i hs =
     (if line = [] then parseHeaderLines lines (i + 1) hs
      else if trim line = [] then (hs, i + 1)
      else case rx_match headerPattern line of
             Some m \<Rightarrow>
               if m ! 0 \<noteq> [] \<and> m ! 3 \<noteq> []
               then parseHeaderLines lines (i + 1) (setHeader (m ! 0) (m ! 3) hs)
               else parseHeaderLines lines (i + 1) hs
           | None \<Rightarrow> parseHeaderLines lines (i + 1) hs)"

text \<open>
  \<open>MboxImporter.parseMessage\<close>; \<open>parseDate\<close> is \<open>new Date(string)\<close> and \<open>now\<close> is
  \<open>new Date(Date.now())\<close>.
\<close>

definition parseMessage :: "(jsstring \<Rightarrow> jsdate) \<Rightarrow> jsdate \<Rightarrow> jsstring \<Rightarrow> int \<Rightarrow> EmailMessage" where
  "parseMessage parseDate now content0 uid0 =
     (let lines = splitOn 0x0A content0
      in case parseHeaderLines lines 0 [] of
           (headers0, bodyStartIndex) \<Rightarrow>
             let body = join [0x0A] (drop bodyStartIndex lines)
             in \<lparr> id' = orElse (map_of headers0 (str ''Message-ID'')) (numberToString uid0),
                  uid = uid0,
                  subject = orElse (map_of headers0 (str ''Subject'')) (str ''(No Subject)''),
                  from' = parseAddress (orElse (map_of headers0 (str ''From'')) (str ''unknown'')),
                  to = parseAddresses (orElse (map_of headers0 (str ''To'')) []),
                  cc = Some (parseAddresses (orElse (map_of headers0 (str ''Cc'')) [])),
                  bcc = None,
                  date = (case truthy (map_of headers0 (str ''Date'')) of
                            Some d \<Rightarrow> parseDate d
                          | None \<Rightarrow> now),
                  headers = map (\<lambda>(k, v). (k, HString v)) headers0,
                  text' = Some body,
                  html = None,
                  attachments = [],
                  raw = Some content0,
                  labels = None,
                  folder = None,
                  flags = None \<rparr>)"

text \<open>
  \<open>MboxImporter.parseMbox\<close>; \<open>now i\<close> is the clock while entry \<open>i\<close> is parsed. The
  pieces that are empty or white space are dropped, so no entry is empty.
\<close>

definition parseMbox :: "(jsstring \<Rightarrow> jsdate) \<Rightarrow> (nat \<Rightarrow> jsdate) \<Rightarrow> jsstring \<Rightarrow> EmailMessage list" where
  "parseMbox parseDate now content0 =
     (let entries = filter (\<lambda>entry. trim entry \<noteq> []) (splitFrom True [] content0)
      in map (\<lambda>(i, entry). parseMessage parseDate (now i) (afterFirstNewline entry) (int i + 1))
           (enumerate 0 entries))"

section \<open>Lines and quoting, as the specification words them\<close>

text \<open>
  The lines of a text as the \<open>m\<close> flag sees them: a line ends at each line terminator.
  Quoting a line prefixes \<open>>\<close> when the line begins with \<open>From \<close> and leaves every
  other line as it is.
\<close>

fun regexLines :: "jsstring \<Rightarrow> jsstring list" where
  "regexLines [] = [[]]"
| "regexLines (c # cs) =
     (if isLineTerminator c then [] # regexLines cs
      else case regexLines cs of
             l # ls \<Rightarrow> (c # l) # ls
           | [] \<Rightarrow> [[c]])"

definition quoteFromLine :: "jsstring \<Rightarrow> jsstring" where
  "quoteFromLine l = (if prefix (str ''From '') l then 0x3E # l else l)"

section \<open>Messages that survive the MBOX round trip\<close>

text \<open>
  The conditions under which the importer reads back what the exporter wrote. The message
  has no raw text and no attachments. Its subject is not empty, holds no line terminator
  and does not start with white space. The sender's address is not empty, holds no line
  terminator and no white space at either end; a sender name holds no double quote and no
  line terminator, and without a name the address holds no \<open><\<close>. The recipients, the
  message id, the additional header lines and the two renderings of the date hold no line
  feed (the envelope date no line terminator). No additional header line and no line of
  the body begins with \<open>Subject:\<close> or \<open>From:\<close>.
\<close>

definition noTerminator :: "jsstring \<Rightarrow> bool" where
  "noTerminator s = (\<forall>c \<in> set s. \<not> isLineTerminator c)"




subsection \<open>The parts of a written entry\<close>






section \<open>Sample inputs\<close>

definition sampleJmapEmail :: JmapEmail where
  "sampleJmapEmail =
     \<lparr>jmap_id = str ''M12'', mailboxIds = None,
      jmap_keywords = Some [str ''$seen'' \<mapsto> True, str ''$draft'' \<mapsto> False],
      receivedAt = str ''2024-01-01T00:00:00Z'', jmap_from = None, jmap_to = None, jmap_cc = None,
      jmap_bcc = None, jmap_subject = None, bodyValues = None, textBody = None, htmlBody = None,
      jmap_attachments = None\<rparr>"

definition sampleSession :: JmapSession where
  "sampleSession =
     \<lparr>apiUrl = str ''https://mail.example/api'', downloadUrl = str ''https://mail.example/down'',
      uploadUrl = str ''https://mail.example/up'',
      primaryAccounts = [str ''urn:ietf:params:jmap:mail'' \<mapsto> str ''u1'']\<rparr>"

definition sampleRuntime :: runtime where
  "sampleRuntime =
     \<lparr>formatLocal = (\<lambda>t. str ''Mon Jan 01 2024 00:00:00 GMT+0000 (Coordinated Universal Time)''),
      formatUTC = (\<lambda>t. str ''Mon, 01 Jan 2024 00:00:00 GMT''),
      base64 = (\<lambda>b. str ''AQID''),
      boundaryAt = (\<lambda>n. str ''----=_Part_'' @ digitsOf n)\<rparr>"


definition sampleMessage :: EmailMessage where
  "sampleMessage =
     \<lparr>id' = str ''1'', uid = 1, subject = str ''Test Email 1'',
      from' = \<lparr>name = Some (str ''Sender Name''), address = str ''sender@example.com''\<rparr>,
      to = [\<lparr>name = Some (str ''Recipient''), address = str ''recipient@example.com''\<rparr>],
      cc = None, bcc = None, date = Date 1704067200000,
      headers = [(str ''Message-ID'', HString (str ''1@example.com''))],
      text' = Some (str ''This is a test email body.''), html = None, attachments = [],
      raw = None, labels = None, folder = None, flags = None\<rparr>"

definition sampleSecond :: EmailMessage where
  "sampleSecond =
     sampleMessage\<lparr>id' := str ''2'', uid := 2, subject := str ''Re: plans'',
       from' := \<lparr>name = None, address = str ''bob@example.org''\<rparr>,
       text' := Some (str ''From now on\<newline>we meet at 10:30'')\<rparr>"


section \<open>Folder names: the sanitization refines its specification\<close>

lemma lower_range:
  "(0x61 \<le> c \<and> c \<le> 0x7A) = (c \<in> set (str ''abcdefghijklmnopqrstuvwxyz''))" for c :: jschar
  unfolding str_def
  apply (simp add: word_le_nat_alt word_unat_eq_iff)
  apply arith
  done

lemma upper_range:
  "(0x41 \<le> c \<and> c \<le> 0x5A) = (c \<in> set (str ''ABCDEFGHIJKLMNOPQRSTUVWXYZ''))" for c :: jschar
  unfolding str_def
  apply (simp add: word_le_nat_alt word_unat_eq_iff)
  apply arith
  done

lemma digit_range:
  "(0x30 \<le> c \<and> c \<le> 0x39) = (c \<in> set (str ''0123456789''))" for c :: jschar
  unfolding str_def
  apply (simp add: word_le_nat_alt word_unat_eq_iff)
  apply arith
  done

lemma isFolderChar_allowed: "isFolderChar c = (c \<in> spec_allowed)"
proof -
  have "spec_allowed = set (str ''abcdefghijklmnopqrstuvwxyz'')
          \<union> set (str ''ABCDEFGHIJKLMNOPQRSTUVWXYZ'') \<union> set (str ''0123456789'') \<union> {0x5F, 0x2D}"
    unfolding spec_allowed_def str_def by auto
  then show ?thesis
    unfolding isFolderChar_def lower_range upper_range digit_range by auto
qed

lemma toLowerChar_spec_lower: "toLowerChar c = spec_lower c"
proof (cases "c \<in> set (str ''ABCDEFGHIJKLMNOPQRSTUVWXYZ'')")
  case True
  then show ?thesis
    unfolding toLowerChar_def spec_lower_def str_def by auto
next
  case False
  then have "toLowerChar c = c"
    by (simp only: toLowerChar_def upper_range if_False)
  moreover from False have "spec_lower c = c"
    unfolding spec_lower_def str_def by auto
  ultimately show ?thesis by simp
qed

lemma spec_squeeze_underscore:
  "spec_squeeze (0x5F # cs) = 0x5F # spec_squeeze (dropWhile (\<lambda>d. d = 0x5F) cs)"
  by (induction cs) auto

lemma collapseUnderscores_squeeze: "collapseUnderscores s = spec_squeeze s"
proof (induction s rule: collapseUnderscores.induct)
  case 1
  show ?case by simp
next
  case (2 c cs)
  show ?case
  proof (cases "c = 0x5F")
    case True
    with 2 show ?thesis by (simp add: spec_squeeze_underscore)
  next
    case False
    with 2 show ?thesis by (cases cs) auto
  qed
qed

lemma sanitize_refines:
  "toLowerCase (collapseUnderscores (replaceUnsafe f)) = spec_sanitize f"
  by (simp add: toLowerCase_def replaceUnsafe_def spec_sanitize_def collapseUnderscores_squeeze
      isFolderChar_allowed toLowerChar_spec_lower cong: map_cong)

lemma sanitize_slash:
  "toLowerCase (collapseUnderscores (replaceUnsafe (str ''Inbox/Archive''))) = str ''inbox_archive''"
  by (simp add: str_def toLowerCase_def toLowerChar_def replaceUnsafe_def isFolderChar_def)

lemma sanitize_backslash:
  "toLowerCase (collapseUnderscores (replaceUnsafe (str ''Inbox'' @ [0x5C] @ str ''Archive'')))
     = str ''inbox_archive''"
  by (simp add: str_def toLowerCase_def toLowerChar_def replaceUnsafe_def isFolderChar_def)

text \<open>
  Claim C8. The \<open>sanitizeFolderName\<close> of the MBOX, the EML and the JSON exporter are the
  same function, and that function is the one the specification describes: every
  character outside \<open>[A-Za-z0-9_-]\<close> becomes \<open>_\<close>, runs of \<open>_\<close> shrink to one, and the
  result is lower-cased. \<open>Inbox/Archive\<close> and \<open>Inbox\Archive\<close> both give
  \<open>inbox_archive\<close>.
\<close>

theorem sanitizeFolderName_spec:
  "Mbox_sanitizeFolderName f = spec_sanitize f
   \<and> Eml_sanitizeFolderName f = spec_sanitize f
   \<and> Json_sanitizeFolderName f = spec_sanitize f
   \<and> Mbox_sanitizeFolderName (str ''Inbox/Archive'') = str ''inbox_archive''
   \<and> Mbox_sanitizeFolderName (str ''Inbox'' @ [0x5C] @ str ''Archive'') = str ''inbox_archive''"
  unfolding Mbox_sanitizeFolderName_def Eml_sanitizeFolderName_def Json_sanitizeFolderName_def
  using sanitize_refines sanitize_slash sanitize_backslash by simp

theorem sanitizeFolderName_spec_witness:
  "Mbox_sanitizeFolderName (str ''My  Folder__x!!'') = str ''my_folder_x_''
   \<and> Eml_sanitizeFolderName (str ''My  Folder__x!!'') = Json_sanitizeFolderName (str ''My  Folder__x!!'')"
proof -
  have "spec_sanitize (str ''My  Folder__x!!'') = str ''my_folder_x_''"
    by (simp add: sanitize_refines [symmetric] str_def toLowerCase_def toLowerChar_def
        replaceUnsafe_def isFolderChar_def)
  then show ?thesis
    using sanitizeFolderName_spec [of "str ''My  Folder__x!!''"] by simp
qed

section \<open>IMAP: the fetched range\<close>

text \<open>
  Claim C6. On a connected instance, for a folder that holds \<open>n\<close> messages,
  \<open>getMessages\<close> issues one fetch for the range \<open>max(1, n - limit + 1)..n\<close> when
  \<open>limit > 0\<close> and \<open>1..n\<close> when it is not; for \<open>limit \<ge> n \<ge> 1\<close> that is \<open>1..n\<close>. For
  an empty folder it issues no fetch and returns the empty sequence.
\<close>

theorem Imap_getMessages_range:
  assumes "connected this"
  shows "fst (Imap_getMessages this (Inr n) seqFetch now fname limit) =
           (if n = 0 then []
            else [(if limit > 0 then max 1 (n - limit + 1) else 1, n)])
         \<and> (n = 0 \<longrightarrow> snd (Imap_getMessages this (Inr n) seqFetch now fname limit) = Inr [])
         \<and> (1 \<le> n \<and> n \<le> limit \<longrightarrow>
              fst (Imap_getMessages this (Inr n) seqFetch now fname limit) = [(1, n)])"
  using assms by (auto simp: Imap_getMessages_def ensureConnected_def Let_def max_def)

theorem Imap_getMessages_range_witness:
  "connected (fst (Imap_connect ImapProvider_new ImapReady))
   \<and> fst (Imap_getMessages (fst (Imap_connect ImapProvider_new ImapReady)) (Inr 10)
            (\<lambda>r. Inr []) InvalidDate (str ''INBOX'') 3) = [(8, 10)]
   \<and> fst (Imap_getMessages (fst (Imap_connect ImapProvider_new ImapReady)) (Inr 10)
            (\<lambda>r. Inr []) InvalidDate (str ''INBOX'') 0) = [(1, 10)]
   \<and> Imap_getMessages (fst (Imap_connect ImapProvider_new ImapReady)) (Inr 0)
            (\<lambda>r. Inr []) InvalidDate (str ''INBOX'') 3 = ([], Inr [])"
proof -
  have c: "connected (fst (Imap_connect ImapProvider_new ImapReady))"
    by (simp add: ImapProvider_new_def)
  show ?thesis
    using c Imap_getMessages_range [OF c, of 10 "\<lambda>r. Inr []" InvalidDate "str ''INBOX''" 3]
      Imap_getMessages_range [OF c, of 10 "\<lambda>r. Inr []" InvalidDate "str ''INBOX''" 0]
      Imap_getMessages_range [OF c, of 0 "\<lambda>r. Inr []" InvalidDate "str ''INBOX''" 3]
    by (simp add: prod_eq_iff)
qed

section \<open>The default subject\<close>

lemma Imap_subject_default:
  "parsed_subject p = None \<or> parsed_subject p = Some []
     \<Longrightarrow> subject (Imap_parseMessage now p u fname) = NoSubject"
  by (auto simp: Imap_parseMessage_def orElse_def NoSubject_def)

lemma Jmap_subject_default:
  "jmap_subject e = None \<or> jmap_subject e = Some []
     \<Longrightarrow> subject (convertJmapEmail parseDate this e fname) = NoSubject"
  by (auto simp: convertJmapEmail_def Let_def orElse_def NoSubject_def)

lemma Gmail_subject_absent:
  assumes "\<forall>h \<in> set hs. case fst h of None \<Rightarrow> True | Some n \<Rightarrow> toLowerCase n \<noteq> str ''subject''"
  shows "parseGmailMessage_subject \<lparr>gmail_id = i, payload_headers = Some hs\<rparr> = []"
proof -
  have "toLowerCase (str ''Subject'') = str ''subject''"
    by (simp add: str_def toLowerCase_def toLowerChar_def)
  with assms have "List.find (\<lambda>h. case fst h of None \<Rightarrow> False
                                | Some n \<Rightarrow> toLowerCase n = toLowerCase (str ''Subject'')) hs = None"
    by (auto simp: find_None_iff split: option.splits)
  then show ?thesis
    by (simp add: parseGmailMessage_subject_def getHeader_def)
qed

text \<open>
  Claim C3. A source message without a subject is given the subject \<open>(No Subject)\<close> by
  the IMAP and the JMAP normalization (the two lemmas above), but not by the Gmail one:
  for a Gmail message whose only header is \<open>From\<close>, \<open>parseGmailMessage\<close> yields the
  empty string as subject.
\<close>

theorem Gmail_subject_not_defaulted:
  "parseGmailMessage_subject
     \<lparr>gmail_id = Some (str ''18c2''),
      payload_headers = Some [(Some (str ''From''), Some (str ''a@b.c''))]\<rparr> = []
   \<and> parseGmailMessage_subject
     \<lparr>gmail_id = Some (str ''18c2''),
      payload_headers = Some [(Some (str ''From''), Some (str ''a@b.c''))]\<rparr> \<noteq> NoSubject"
  by (simp add: parseGmailMessage_subject_def getHeader_def NoSubject_def str_def toLowerCase_def
      toLowerChar_def orElse_def)

section \<open>JMAP keywords and flags\<close>

lemma flag_names_distinct:
  "distinct [0x5C # str ''Seen'', 0x5C # str ''Flagged'', 0x5C # str ''Answered'', 0x5C # str ''Draft'']"
  by (simp add: str_def)

lemma flags_of_keywords:
  "\<exists>fl. flags (convertJmapEmail parseDate this e fname) = Some fl
     \<and> distinct fl
     \<and> set fl \<subseteq> {0x5C # str ''Seen'', 0x5C # str ''Flagged'', 0x5C # str ''Answered'', 0x5C # str ''Draft''}
     \<and> ((0x5C # str ''Seen'') \<in> set fl
           \<longleftrightarrow> (\<exists>kw. jmap_keywords e = Some kw \<and> kw (str ''$seen'') = Some True))
     \<and> ((0x5C # str ''Flagged'') \<in> set fl
           \<longleftrightarrow> (\<exists>kw. jmap_keywords e = Some kw \<and> kw (str ''$flagged'') = Some True))
     \<and> ((0x5C # str ''Answered'') \<in> set fl
           \<longleftrightarrow> (\<exists>kw. jmap_keywords e = Some kw \<and> kw (str ''$answered'') = Some True))
     \<and> ((0x5C # str ''Draft'') \<in> set fl
           \<longleftrightarrow> (\<exists>kw. jmap_keywords e = Some kw \<and> kw (str ''$draft'') = Some True))"
  using flag_names_distinct
  by (auto simp: convertJmapEmail_def Let_def keywordSet_def split: option.splits)

lemma flags_other_keyword:
  assumes "k \<notin> {str ''$seen'', str ''$flagged'', str ''$answered'', str ''$draft''}"
  shows "flags (convertJmapEmail parseDate this (e\<lparr>jmap_keywords := Some (kw(k \<mapsto> b))\<rparr>) fname)
         = flags (convertJmapEmail parseDate this (e\<lparr>jmap_keywords := Some kw\<rparr>) fname)"
  using assms by (auto simp: convertJmapEmail_def Let_def keywordSet_def)

text \<open>
  Claim C7. The flags of a normalized JMAP email are a duplicate-free sequence over
  \<open>\Seen\<close>, \<open>\Flagged\<close>, \<open>\Answered\<close> and \<open>\Draft\<close>; each of the four is present
  exactly when its keyword (\<open>$seen\<close>, \<open>$flagged\<close>, \<open>$answered\<close>, \<open>$draft\<close>) is set to
  true; and setting any other keyword, to either value, leaves the flags as they are.
\<close>

theorem convertJmapEmail_flags:
  "(\<exists>fl. flags (convertJmapEmail parseDate this e fname) = Some fl
     \<and> distinct fl
     \<and> set fl \<subseteq> {0x5C # str ''Seen'', 0x5C # str ''Flagged'', 0x5C # str ''Answered'', 0x5C # str ''Draft''}
     \<and> ((0x5C # str ''Seen'') \<in> set fl
           \<longleftrightarrow> (\<exists>kw. jmap_keywords e = Some kw \<and> kw (str ''$seen'') = Some True))
     \<and> ((0x5C # str ''Flagged'') \<in> set fl
           \<longleftrightarrow> (\<exists>kw. jmap_keywords e = Some kw \<and> kw (str ''$flagged'') = Some True))
     \<and> ((0x5C # str ''Answered'') \<in> set fl
           \<longleftrightarrow> (\<exists>kw. jmap_keywords e = Some kw \<and> kw (str ''$answered'') = Some True))
     \<and> ((0x5C # str ''Draft'') \<in> set fl
           \<longleftrightarrow> (\<exists>kw. jmap_keywords e = Some kw \<and> kw (str ''$draft'') = Some True)))
   \<and> (k \<notin> {str ''$seen'', str ''$flagged'', str ''$answered'', str ''$draft''} \<longrightarrow>
        flags (convertJmapEmail parseDate this (e\<lparr>jmap_keywords := Some (kw0(k \<mapsto> b))\<rparr>) fname)
        = flags (convertJmapEmail parseDate this (e\<lparr>jmap_keywords := Some kw0\<rparr>) fname))"
  using flags_of_keywords [of parseDate this e fname]
    flags_other_keyword [where k = k and parseDate = parseDate and this = this and e = e
      and kw = kw0 and b = b and fname = fname]
  by blast

theorem convertJmapEmail_flags_witness:
  "str ''$forwarded'' \<notin> {str ''$seen'', str ''$flagged'', str ''$answered'', str ''$draft''}
   \<and> flags (convertJmapEmail (\<lambda>s. InvalidDate) JmapProvider_new
              (sampleJmapEmail\<lparr>jmap_keywords :=
                 Some ([str ''$seen'' \<mapsto> True, str ''$draft'' \<mapsto> False](str ''$forwarded'' \<mapsto> True))\<rparr>)
              (str ''inbox''))
     = Some [0x5C # str ''Seen'']"
proof -
  have k: "str ''$forwarded'' \<notin> {str ''$seen'', str ''$flagged'', str ''$answered'', str ''$draft''}"
    by (simp add: str_def)
  have "flags (convertJmapEmail (\<lambda>s. InvalidDate) JmapProvider_new
                (sampleJmapEmail\<lparr>jmap_keywords := Some [str ''$seen'' \<mapsto> True, str ''$draft'' \<mapsto> False]\<rparr>)
                (str ''inbox'')) = Some [0x5C # str ''Seen'']"
    by (simp add: convertJmapEmail_def Let_def keywordSet_def sampleJmapEmail_def str_def)
  with k show ?thesis
    using convertJmapEmail_flags [where parseDate = "\<lambda>s. InvalidDate" and this = JmapProvider_new
        and e = sampleJmapEmail and fname = "str ''inbox''" and k = "str ''$forwarded''"
        and ?kw0.0 = "[str ''$seen'' \<mapsto> True, str ''$draft'' \<mapsto> False]" and b = True]
    by simp
qed

section \<open>The connection state\<close>

lemma guarded_refuses: "\<not> connected this \<Longrightarrow> guarded this body = Inl NotConnectedError"
  by (simp add: guarded_def ensureConnected_def)

lemma Imap_getMessages_refuses:
  "\<not> connected this
     \<Longrightarrow> Imap_getMessages this openBox seqFetch now fname limit = ([], Inl NotConnectedError)"
  by (simp add: Imap_getMessages_def ensureConnected_def)

lemma Jmap_getFolders_refuses:
  "\<not> connected this \<Longrightarrow> Jmap_getFolders this r = (this, Inl NotConnectedError)"
  by (simp add: Jmap_getFolders_def guarded_refuses)

lemmas data_method_defs =
  Imap_getFolders_def Imap_getMessage_def Imap_uploadMessages_def Imap_createFolder_def
  Imap_deleteFolder_def Gmail_getFolders_def Gmail_getMessages_def Gmail_getMessage_def
  Gmail_uploadMessages_def Gmail_createFolder_def Gmail_deleteFolder_def
  Jmap_getMessages_def Jmap_getMessage_def Jmap_uploadMessages_def Jmap_createFolder_def
  Jmap_deleteFolder_def

subsection \<open>What a connection attempt does to the flag\<close>

lemma Imap_connect_flag:
  "connected (fst (Imap_connect this ev)) = succeeded (snd (Imap_connect this ev))"
  by (cases ev) (auto simp: succeeded_def)

lemma Gmail_connect_flag:
  "connected (fst (Gmail_connect this p)) = succeeded (snd (Gmail_connect this p))"
  by (cases p) (auto simp: succeeded_def)

lemma Jmap_connect_flag:
  "connected (fst (Jmap_connect this f)) = succeeded (snd (Jmap_connect this f))"
  by (cases f) (auto simp: Jmap_connectFailed_def succeeded_def Let_def split: option.splits)

lemma Imap_connect_client: "imap (fst (Imap_connect this ev)) = Some Imap"
  by (cases ev) simp_all

lemma Imap_testConnection_flag: "\<not> connected (fst (Imap_testConnection this ev))"
  by (cases ev) (simp_all add: Imap_testConnection_def Imap_disconnect_def)

lemma Gmail_testConnection_flag:
  "connected (fst (Gmail_testConnection this p)) = succeeded (snd (Gmail_connect this p))"
  by (cases p) (auto simp: Gmail_testConnection_def succeeded_def)

lemma Jmap_testConnection_flag: "\<not> connected (fst (Jmap_testConnection this f))"
  using Jmap_connect_flag [of this f]
  by (auto simp: Jmap_testConnection_def Jmap_disconnect_def succeeded_def
      split: prod.splits sum.splits)

subsection \<open>The IMAP client is set whenever the flag is\<close>

lemma Imap_step_inv:
  "(connected this \<longrightarrow> imap this \<noteq> None)
     \<Longrightarrow> (connected (Imap_step this a) \<longrightarrow> imap (Imap_step this a) \<noteq> None)"
  by (cases a)
    (auto simp: Imap_disconnect_def Imap_connect_client Imap_testConnection_flag Imap_onEnd_def
      split: option.splits)

lemma Imap_run_inv:
  "(connected this \<longrightarrow> imap this \<noteq> None)
     \<Longrightarrow> (connected (Imap_run this as) \<longrightarrow> imap (Imap_run this as) \<noteq> None)"
  unfolding Imap_run_def
proof (induction as arbitrary: this)
  case Nil
  then show ?case by simp
next
  case (Cons a as)
  from Imap_step_inv [OF Cons.prems]
  have "connected (Imap_step this a) \<longrightarrow> imap (Imap_step this a) \<noteq> None" .
  from Cons.IH [OF this] show ?case by simp
qed

lemma Imap_disconnect_reachable: "\<not> connected (Imap_disconnect (Imap_run ImapProvider_new as))"
proof -
  have "connected (Imap_run ImapProvider_new as) \<longrightarrow> imap (Imap_run ImapProvider_new as) \<noteq> None"
    by (rule Imap_run_inv) (simp add: ImapProvider_new_def)
  then show ?thesis
    by (auto simp: Imap_disconnect_def split: option.splits)
qed

text \<open>
  Claim C4. Take an instance of any of the three providers that has never connected, or
  on which \<open>disconnect\<close> has just been called (for IMAP: after any sequence of calls on
  a fresh instance). Its \<open>connected\<close> flag is false, and each of \<open>getFolders\<close>,
  \<open>getMessages\<close>, \<open>getMessage\<close>, \<open>uploadMessages\<close>, \<open>createFolder\<close> and
  \<open>deleteFolder\<close> fails with the error of \<open>ensureConnected\<close>, whatever the server
  would have answered.
\<close>

theorem data_methods_need_connection:
  assumes "i \<in> {ImapProvider_new, Imap_disconnect (Imap_run ImapProvider_new ia)}"
    and "g \<in> {GmailProvider_new, Gmail_disconnect g0}"
    and "j \<in> {JmapProvider_new, Jmap_disconnect j0}"
  shows "\<not> connected i \<and> \<not> connected g \<and> \<not> connected j
    \<and> Imap_getFolders i b1 = Inl NotConnectedError
    \<and> snd (Imap_getMessages i openBox seqFetch now fname limit) = Inl NotConnectedError
    \<and> Imap_getMessage i b2 = Inl NotConnectedError
    \<and> Imap_uploadMessages i b3 = Inl NotConnectedError
    \<and> Imap_createFolder i b4 = Inl NotConnectedError
    \<and> Imap_deleteFolder i b5 = Inl NotConnectedError
    \<and> Gmail_getFolders g c1 = Inl NotConnectedError
    \<and> Gmail_getMessages g c2 = Inl NotConnectedError
    \<and> Gmail_getMessage g c3 = Inl NotConnectedError
    \<and> Gmail_uploadMessages g c4 = Inl NotConnectedError
    \<and> Gmail_createFolder g c5 = Inl NotConnectedError
    \<and> Gmail_deleteFolder g c6 = Inl NotConnectedError
    \<and> snd (Jmap_getFolders j d1) = Inl NotConnectedError
    \<and> Jmap_getMessages j d2 = Inl NotConnectedError
    \<and> Jmap_getMessage j d3 = Inl NotConnectedError
    \<and> Jmap_uploadMessages j d4 = Inl NotConnectedError
    \<and> Jmap_createFolder j d5 = Inl NotConnectedError
    \<and> Jmap_deleteFolder j d6 = Inl NotConnectedError"
proof -
  have i: "\<not> connected i"
    using assms(1) Imap_disconnect_reachable [of ia] by (auto simp: ImapProvider_new_def)
  have g: "\<not> connected g"
    using assms(2) by (auto simp: GmailProvider_new_def Gmail_disconnect_def)
  have j: "\<not> connected j"
    using assms(3) by (auto simp: JmapProvider_new_def Jmap_disconnect_def)
  show ?thesis
    using i g j
    by (simp add: guarded_refuses Imap_getMessages_refuses Jmap_getFolders_refuses data_method_defs)
qed

theorem data_methods_need_connection_witness:
  "\<not> connected (Imap_disconnect (Imap_run ImapProvider_new [ImapConnect ImapReady, ImapDataCall]))
   \<and> Imap_getFolders (Imap_disconnect (Imap_run ImapProvider_new [ImapConnect ImapReady, ImapDataCall]))
        (Inr [str ''INBOX'']) = Inl NotConnectedError
   \<and> Gmail_getMessage (Gmail_disconnect (fst (Gmail_connect GmailProvider_new ProfileOk)))
        (Inr (str ''message'')) = Inl NotConnectedError
   \<and> Jmap_createFolder JmapProvider_new (Inr ()) = Inl NotConnectedError"
proof -
  have i: "Imap_disconnect (Imap_run ImapProvider_new [ImapConnect ImapReady, ImapDataCall])
             \<in> {ImapProvider_new,
                Imap_disconnect (Imap_run ImapProvider_new [ImapConnect ImapReady, ImapDataCall])}"
    by simp
  have g: "Gmail_disconnect (fst (Gmail_connect GmailProvider_new ProfileOk))
             \<in> {GmailProvider_new, Gmail_disconnect (fst (Gmail_connect GmailProvider_new ProfileOk))}"
    by simp
  have j: "JmapProvider_new \<in> {JmapProvider_new, Jmap_disconnect JmapProvider_new}"
    by simp
  from data_methods_need_connection [OF i g j,
      where ?b1.0 = "Inr [str ''INBOX'']" and openBox = "Inr 0" and seqFetch = "\<lambda>r. Inr []"
        and now = InvalidDate and fname = "[]" and limit = 0 and ?b2.0 = "Inr ()"
        and ?b3.0 = "Inr ()" and ?b4.0 = "Inr ()" and ?b5.0 = "Inr ()" and ?c1.0 = "Inr ()"
        and ?c2.0 = "Inr ()" and ?c3.0 = "Inr (str ''message'')" and ?c4.0 = "Inr ()"
        and ?c5.0 = "Inr ()" and ?c6.0 = "Inr ()" and ?d1.0 = "Inr ([], ())" and ?d2.0 = "Inr ()"
        and ?d3.0 = "Inr ()" and ?d4.0 = "Inr ()" and ?d5.0 = "Inr ()" and ?d6.0 = "Inr ()"]
  show ?thesis
    by simp
qed

text \<open>
  Claim C5. \<open>testConnection\<close> of each provider returns a boolean and never throws: the
  boolean tells whether the connection attempt succeeded. Afterwards the IMAP and the
  JMAP instance are disconnected in either case, while the Gmail instance is connected
  exactly when the attempt succeeded.
\<close>

theorem testConnection_never_throws:
  "snd (Imap_testConnection i ev) = Inr (succeeded (snd (Imap_connect i ev)))
   \<and> \<not> connected (fst (Imap_testConnection i ev))
   \<and> snd (Jmap_testConnection j f) = Inr (succeeded (snd (Jmap_connect j f)))
   \<and> \<not> connected (fst (Jmap_testConnection j f))
   \<and> snd (Gmail_testConnection g p) = Inr (succeeded (snd (Gmail_connect g p)))
   \<and> connected (fst (Gmail_testConnection g p)) = succeeded (snd (Gmail_connect g p))"
  using Imap_testConnection_flag [of i ev] Jmap_testConnection_flag [of j f]
    Gmail_testConnection_flag [of g p]
  by (auto simp: Imap_testConnection_def Jmap_testConnection_def Gmail_testConnection_def
      succeeded_def split: prod.splits sum.splits)

theorem testConnection_never_throws_witness:
  "Imap_testConnection ImapProvider_new ImapReady = (\<lparr>connected = False, imap = None\<rparr>, Inr True)
   \<and> snd (Imap_testConnection ImapProvider_new (ImapError (str ''ECONNREFUSED''))) = Inr False
   \<and> snd (Jmap_testConnection JmapProvider_new (SessionObject sampleSession)) = Inr True
   \<and> \<not> connected (fst (Jmap_testConnection JmapProvider_new (SessionObject sampleSession)))
   \<and> snd (Gmail_testConnection GmailProvider_new ProfileOk) = Inr True
   \<and> connected (fst (Gmail_testConnection GmailProvider_new ProfileOk))"
  using testConnection_never_throws [of ImapProvider_new ImapReady JmapProvider_new
      "SessionObject sampleSession" GmailProvider_new ProfileOk]
    testConnection_never_throws [of ImapProvider_new "ImapError (str ''ECONNREFUSED'')"
      JmapProvider_new "SessionObject sampleSession" GmailProvider_new ProfileOk]
  by (simp add: succeeded_def ImapProvider_new_def Imap_testConnection_def Imap_disconnect_def
      sampleSession_def truthy_def str_def Let_def)

subsection \<open>After a failed attempt\<close>

lemma succeeded_independent_Imap:
  "succeeded (snd (Imap_connect this ev)) = succeeded (snd (Imap_connect that ev))"
  by (cases ev) (auto simp: succeeded_def)

lemma succeeded_independent_Gmail:
  "succeeded (snd (Gmail_connect this p)) = succeeded (snd (Gmail_connect that p))"
  by (cases p) (auto simp: succeeded_def)

lemma succeeded_independent_Jmap:
  "succeeded (snd (Jmap_connect this f)) = succeeded (snd (Jmap_connect that f))"
  by (cases f) (auto simp: succeeded_def Jmap_connectFailed_def Let_def split: option.splits)

lemma Imap_step_stays:
  "\<not> connected this \<Longrightarrow> \<not> Imap_connects a \<Longrightarrow> \<not> connected (Imap_step this a)"
  using Imap_connect_flag succeeded_independent_Imap [of this _ ImapProvider_new]
  by (cases a)
    (auto simp: Imap_testConnection_flag Imap_disconnect_def Imap_onEnd_def split: option.splits)

lemma Gmail_step_stays:
  "\<not> connected this \<Longrightarrow> \<not> Gmail_connects a \<Longrightarrow> \<not> connected (Gmail_step this a)"
  using Gmail_connect_flag succeeded_independent_Gmail [of this _ GmailProvider_new]
  by (cases a) (auto simp: Gmail_testConnection_flag Gmail_disconnect_def)

lemma Jmap_step_stays:
  "\<not> connected this \<Longrightarrow> \<not> Jmap_connects a \<Longrightarrow> \<not> connected (Jmap_step this a)"
  using Jmap_connect_flag succeeded_independent_Jmap [of this _ JmapProvider_new]
  by (cases a) (auto simp: Jmap_testConnection_flag Jmap_disconnect_def Jmap_getFolders_refuses)

lemma Imap_run_stays:
  "\<not> connected this \<Longrightarrow> \<forall>a\<in>set as. \<not> Imap_connects a \<Longrightarrow> \<not> connected (Imap_run this as)"
  unfolding Imap_run_def by (induction as arbitrary: this) (auto dest: Imap_step_stays)

lemma Gmail_run_stays:
  "\<not> connected this \<Longrightarrow> \<forall>a\<in>set as. \<not> Gmail_connects a \<Longrightarrow> \<not> connected (Gmail_run this as)"
  unfolding Gmail_run_def by (induction as arbitrary: this) (auto dest: Gmail_step_stays)

lemma Jmap_run_stays:
  "\<not> connected this \<Longrightarrow> \<forall>a\<in>set as. \<not> Jmap_connects a \<Longrightarrow> \<not> connected (Jmap_run this as)"
  unfolding Jmap_run_def by (induction as arbitrary: this) (auto dest: Jmap_step_stays)

text \<open>
  Claim C10. When \<open>connect\<close> of any of the three providers fails, the instance is left
  with the \<open>connected\<close> flag false. It stays so through any further sequence of calls
  in which no connection attempt succeeds, and after such a sequence each of the six
  data-fetching methods fails with the error of \<open>ensureConnected\<close>.
\<close>

theorem failed_connect_leaves_disconnected:
  assumes "Imap_connect i ev = (i1, Inl e1)" and "\<forall>a\<in>set ia. \<not> Imap_connects a"
    and "Gmail_connect g p = (g1, Inl e2)" and "\<forall>a\<in>set ga. \<not> Gmail_connects a"
    and "Jmap_connect j f = (j1, Inl e3)" and "\<forall>a\<in>set ja. \<not> Jmap_connects a"
  shows "\<not> connected i1 \<and> \<not> connected g1 \<and> \<not> connected j1
    \<and> \<not> connected (Imap_run i1 ia) \<and> \<not> connected (Gmail_run g1 ga) \<and> \<not> connected (Jmap_run j1 ja)
    \<and> Imap_getFolders (Imap_run i1 ia) b1 = Inl NotConnectedError
    \<and> snd (Imap_getMessages (Imap_run i1 ia) openBox seqFetch now fname limit) = Inl NotConnectedError
    \<and> Imap_getMessage (Imap_run i1 ia) b2 = Inl NotConnectedError
    \<and> Imap_uploadMessages (Imap_run i1 ia) b3 = Inl NotConnectedError
    \<and> Imap_createFolder (Imap_run i1 ia) b4 = Inl NotConnectedError
    \<and> Imap_deleteFolder (Imap_run i1 ia) b5 = Inl NotConnectedError
    \<and> Gmail_getFolders (Gmail_run g1 ga) c1 = Inl NotConnectedError
    \<and> Gmail_getMessages (Gmail_run g1 ga) c2 = Inl NotConnectedError
    \<and> Gmail_getMessage (Gmail_run g1 ga) c3 = Inl NotConnectedError
    \<and> Gmail_uploadMessages (Gmail_run g1 ga) c4 = Inl NotConnectedError
    \<and> Gmail_createFolder (Gmail_run g1 ga) c5 = Inl NotConnectedError
    \<and> Gmail_deleteFolder (Gmail_run g1 ga) c6 = Inl NotConnectedError
    \<and> snd (Jmap_getFolders (Jmap_run j1 ja) d1) = Inl NotConnectedError
    \<and> Jmap_getMessages (Jmap_run j1 ja) d2 = Inl NotConnectedError
    \<and> Jmap_getMessage (Jmap_run j1 ja) d3 = Inl NotConnectedError
    \<and> Jmap_uploadMessages (Jmap_run j1 ja) d4 = Inl NotConnectedError
    \<and> Jmap_createFolder (Jmap_run j1 ja) d5 = Inl NotConnectedError
    \<and> Jmap_deleteFolder (Jmap_run j1 ja) d6 = Inl NotConnectedError"
proof -
  have i1: "\<not> connected i1"
    using Imap_connect_flag [of i ev] assms(1) by (simp add: succeeded_def)
  have g1: "\<not> connected g1"
    using Gmail_connect_flag [of g p] assms(3) by (simp add: succeeded_def)
  have j1: "\<not> connected j1"
    using Jmap_connect_flag [of j f] assms(5) by (simp add: succeeded_def)
  have i2: "\<not> connected (Imap_run i1 ia)"
    using i1 assms(2) by (rule Imap_run_stays)
  have g2: "\<not> connected (Gmail_run g1 ga)"
    using g1 assms(4) by (rule Gmail_run_stays)
  have j2: "\<not> connected (Jmap_run j1 ja)"
    using j1 assms(6) by (rule Jmap_run_stays)
  show ?thesis
    using i1 g1 j1 i2 g2 j2
    by (simp add: guarded_refuses Imap_getMessages_refuses Jmap_getFolders_refuses data_method_defs)
qed

theorem failed_connect_leaves_disconnected_witness:
  "fst (Imap_connect (fst (Imap_connect ImapProvider_new ImapReady)) (ImapError (str ''ECONNRESET'')))
     = \<lparr>connected = False, imap = Some Imap\<rparr>
   \<and> Imap_getFolders
        (Imap_run \<lparr>connected = False, imap = Some Imap\<rparr>
           [ImapDataCall, ImapTestConnection (ImapError (str ''ECONNRESET'')), ImapDisconnect])
        (Inr [str ''INBOX'']) = Inl NotConnectedError
   \<and> Gmail_getMessage
        (Gmail_run (fst (Gmail_connect GmailProvider_new (ProfileError (Error (str ''invalid_grant'')))))
           [GmailDataCall, GmailConnect (ProfileError (Error (str ''invalid_grant'')))])
        (Inr (str ''message'')) = Inl NotConnectedError
   \<and> Jmap_deleteFolder
        (Jmap_run (fst (Jmap_connect JmapProvider_new (ResponseNotOk (str ''401'') (str ''Unauthorized''))))
           [JmapGetFolders (Inr ([], ())), JmapDisconnect])
        (Inr ()) = Inl NotConnectedError"
proof -
  have i: "Imap_connect (fst (Imap_connect ImapProvider_new ImapReady)) (ImapError (str ''ECONNRESET''))
             = (\<lparr>connected = False, imap = Some Imap\<rparr>, Inl (Error (str ''ECONNRESET'')))"
    by (simp add: ImapProvider_new_def)
  have ia: "\<forall>a\<in>set [ImapDataCall, ImapTestConnection (ImapError (str ''ECONNRESET'')), ImapDisconnect].
              \<not> Imap_connects a"
    by (simp add: succeeded_def)
  have g: "Gmail_connect GmailProvider_new (ProfileError (Error (str ''invalid_grant'')))
             = (fst (Gmail_connect GmailProvider_new (ProfileError (Error (str ''invalid_grant'')))),
                Inl (Error (str ''Failed to connect to Gmail: ''
                              @ errorToString (Error (str ''invalid_grant'')))))"
    by simp
  have ga: "\<forall>a\<in>set [GmailDataCall, GmailConnect (ProfileError (Error (str ''invalid_grant'')))].
              \<not> Gmail_connects a"
    by (simp add: succeeded_def)
  have j: "Jmap_connect JmapProvider_new (ResponseNotOk (str ''401'') (str ''Unauthorized''))
             = (fst (Jmap_connect JmapProvider_new (ResponseNotOk (str ''401'') (str ''Unauthorized''))),
                Inl (Error (str ''Failed to connect to JMAP: ''
                   @ errorToString (Error (str ''JMAP session request failed: '' @ str ''401''
                                             @ str '' '' @ str ''Unauthorized'')))))"
    by (simp add: Jmap_connectFailed_def)
  have ja: "\<forall>a\<in>set [JmapGetFolders (Inr ([], ())), JmapDisconnect]. \<not> Jmap_connects a"
    by simp
  from failed_connect_leaves_disconnected [OF i ia g ga j ja,
      where ?b1.0 = "Inr [str ''INBOX'']" and openBox = "Inr 0" and seqFetch = "\<lambda>r. Inr []"
        and now = InvalidDate and fname = "[]" and limit = 0 and ?b2.0 = "Inr ()"
        and ?b3.0 = "Inr ()" and ?b4.0 = "Inr ()" and ?b5.0 = "Inr ()" and ?c1.0 = "Inr ()"
        and ?c2.0 = "Inr ()" and ?c3.0 = "Inr (str ''message'')" and ?c4.0 = "Inr ()"
        and ?c5.0 = "Inr ()" and ?c6.0 = "Inr ()" and ?d1.0 = "Inr ([], ())" and ?d2.0 = "Inr ()"
        and ?d3.0 = "Inr ()" and ?d4.0 = "Inr ()" and ?d5.0 = "Inr ()" and ?d6.0 = "Inr ()"]
  show ?thesis
    using i by simp
qed

section \<open>The JSON export\<close>














lemma messageToJson_cases:
  "messageToJson formatISO m =
     (case date m of InvalidDate \<Rightarrow> Inl (RangeError (str ''Invalid Date''))
                   | Date t \<Rightarrow> Inr (messageObject (formatISO t) m))"
  by (simp add: messageToJson_def Date_toISOString_def split: jsdate.splits)

lemma messagesToJson_invalid:
  "(\<exists>m \<in> set messages. date m = InvalidDate)
     \<longrightarrow> messagesToJson formatISO messages = Inl (RangeError (str ''Invalid Date''))"
proof (induction messages)
  case Nil
  show ?case by simp
next
  case (Cons a messages)
  show ?case
  proof (cases "date a")
    case InvalidDate
    then show ?thesis by (simp add: messageToJson_cases)
  next
    case (Date t)
    with Cons show ?thesis by (auto simp: messageToJson_cases)
  qed
qed




section \<open>MBOX export: quoting of \<open>From \<close> lines\<close>

lemma From_chars: "str ''From '' = [0x46, 0x72, 0x6F, 0x6D, 0x20]"
  by (simp add: str_def)

lemma From_no_terminator: "c \<in> set (str ''From '') \<Longrightarrow> \<not> isLineTerminator c"
  by (auto simp: str_def isLineTerminator_def)

lemma regexLines_nonempty: "regexLines s \<noteq> []"
  by (induction s) (auto split: list.splits)

lemma regexLines_obtain: obtains l ls where "regexLines s = l # ls"
  using regexLines_nonempty [of s] by (cases "regexLines s") auto

lemma hd_regexLines_prefix: "regexLines s = l # ls \<Longrightarrow> prefix l s"
  by (induction s arbitrary: l ls) (auto split: if_splits list.splits simp: regexLines_nonempty)

text \<open>A text without line terminators starts a string iff it starts the string's first line.\<close>
lemma prefix_first_line:
  assumes "\<forall>c \<in> set p. \<not> isLineTerminator c" and "regexLines s = l # ls"
  shows "prefix p s = prefix p l"
  using assms
proof (induction s arbitrary: p l ls)
  case Nil
  then show ?case by auto
next
  case (Cons c cs)
  show ?case
  proof (cases p)
    case Nil
    then show ?thesis by simp
  next
    case (Cons a p')
    obtain l' ls' where r: "regexLines cs = l' # ls'" by (rule regexLines_obtain)
    show ?thesis
    proof (cases "isLineTerminator c")
      case True
      with Cons.prems Cons show ?thesis by auto
    next
      case False
      with Cons.prems r have l: "l = c # l'" by simp
      from Cons.prems(1) Cons have "\<forall>c \<in> set p'. \<not> isLineTerminator c" by simp
      from Cons.IH [OF this r] have "prefix p' cs = prefix p' l'" .
      with l Cons show ?thesis by simp
    qed
  qed
qed

lemma regexLines_append_noLT:
  assumes "\<forall>c \<in> set p. \<not> isLineTerminator c" and "regexLines s = l # ls"
  shows "regexLines (p @ s) = (p @ l) # ls"
  using assms by (induction p) auto

lemma regexLines_escape:
  "regexLines s = l # ls \<Longrightarrow>
   regexLines (escapeFromLines b s) = (if b then quoteFromLine l else l) # map quoteFromLine ls"
proof (induction b s arbitrary: l ls rule: escapeFromLines.induct)
  case (1 bol s)
  show ?case
  proof (cases "bol \<and> prefix (str ''From '') s")
    case True
    then obtain s' where s: "s = str ''From '' @ s'" by (auto simp: prefix_def)
    then have d: "drop 5 s = s'" by (simp add: str_def)
    obtain l' ls' where r: "regexLines s' = l' # ls'" by (rule regexLines_obtain)
    have "regexLines s = (str ''From '' @ l') # ls'"
      unfolding s using From_no_terminator r by (intro regexLines_append_noLT) auto
    with "1.prems" have l: "l = str ''From '' @ l'" "ls = ls'" by auto
    from "1.IH"(1) [OF True, of l' ls'] r d
    have ih: "regexLines (escapeFromLines False s') = l' # map quoteFromLine ls'" by simp
    have "\<forall>c \<in> set (str ''>From ''). \<not> isLineTerminator c"
      by (auto simp: str_def isLineTerminator_def)
    from regexLines_append_noLT [OF this ih]
    have "regexLines (str ''>From '' @ escapeFromLines False s') = (str ''>From '' @ l') # map quoteFromLine ls'" .
    moreover have "escapeFromLines bol s = str ''>From '' @ escapeFromLines False s'"
      using True d by (subst escapeFromLines.simps) simp
    moreover have "quoteFromLine l = str ''>From '' @ l'"
      unfolding l quoteFromLine_def by (simp add: str_def)
    ultimately show ?thesis using True l by simp
  next
    case False
    show ?thesis
    proof (cases s)
      case Nil
      with False "1.prems" show ?thesis
        by (subst escapeFromLines.simps) (auto simp: quoteFromLine_def str_def)
    next
      case (Cons c cs)
      obtain l' ls' where r: "regexLines cs = l' # ls'" by (rule regexLines_obtain)
      have e: "escapeFromLines bol s = c # escapeFromLines (isLineTerminator c) cs"
        using False Cons by (subst escapeFromLines.simps) auto
      from "1.IH"(2) [OF False Cons r]
      have ih: "regexLines (escapeFromLines (isLineTerminator c) cs)
                  = (if isLineTerminator c then quoteFromLine l' else l') # map quoteFromLine ls'" .
      show ?thesis
      proof (cases "isLineTerminator c")
        case True
        with Cons r "1.prems" have "l = []" "ls = l' # ls'" by auto
        with True e ih show ?thesis by (simp add: quoteFromLine_def str_def)
      next
        case nt: False
        with Cons r "1.prems" have l: "l = c # l'" "ls = ls'" by auto
        have "quoteFromLine l = l" if bol
        proof -
          from that False have "\<not> prefix (str ''From '') s" by simp
          with prefix_first_line [OF _ "1.prems", of "str ''From ''"] From_no_terminator
          have "\<not> prefix (str ''From '') l" by auto
          then show ?thesis by (simp add: quoteFromLine_def)
        qed
        with nt e ih l show ?thesis by auto
      qed
    qed
  qed
qed

lemma terminators_escape:
  "filter isLineTerminator (escapeFromLines b s) = filter isLineTerminator s"
proof (induction b s rule: escapeFromLines.induct)
  case (1 bol s)
  show ?case
  proof (cases "bol \<and> prefix (str ''From '') s")
    case True
    then obtain s' where s: "s = str ''From '' @ s'" by (auto simp: prefix_def)
    then have d: "drop 5 s = s'" by (simp add: str_def)
    have "escapeFromLines bol s = str ''>From '' @ escapeFromLines False s'"
      using True d by (subst escapeFromLines.simps) simp
    with "1.IH"(1) [OF True] d s show ?thesis
      by (simp add: str_def isLineTerminator_def)
  next
    case False
    show ?thesis
    proof (cases s)
      case Nil
      with False show ?thesis by (subst escapeFromLines.simps) auto
    next
      case (Cons c cs)
      have "escapeFromLines bol s = c # escapeFromLines (isLineTerminator c) cs"
        using False Cons by (subst escapeFromLines.simps) auto
      with "1.IH"(2) [OF False Cons] Cons show ?thesis
        by (cases "isLineTerminator c") simp_all
    qed
  qed
qed

text \<open>
  Claim C1, as stated, fails for a line that is already quoted: a content line
  \<open>>From me\<close> is written as it is, not as \<open>>>From me\<close>.
\<close>

theorem escaped_line_not_escaped_again_counterexample:
  "fst (messageToMboxEntry sampleRuntime 0 (sampleMessage\<lparr>raw := Some (str ''>From me'')\<rparr>))
     = str ''From sender@example.com Mon Jan 01 2024 00:00:00 GMT+0000 (Coordinated Universal Time)\<newline>>From me\<newline>\<newline>''"
  by (simp add: messageToMboxEntry_def createFromLine_def Date_toString_def sampleRuntime_def
      sampleMessage_def truthy_def orElse_def Let_def str_def escapeFromLines.simps
      isLineTerminator_def)

text \<open>
  Claim C1, amended. The entry of a message is its envelope line, a line feed, the
  quoted content and two line feeds. The quoted content has the line terminators of the
  content (the raw text when there is one, the reconstruction otherwise) and its lines
  each quoted once: a line beginning with \<open>From \<close> is prefixed with \<open>>\<close>; every
  other line, and so a line beginning with \<open>>From \<close>, is written unchanged.
\<close>

theorem From_lines_quoted_once:
  "(\<exists>escaped.
     fst (messageToMboxEntry rt k message)
       = createFromLine rt message @ [0x0A] @ escaped @ [0x0A, 0x0A]
     \<and> regexLines escaped
         = map quoteFromLine
             (regexLines (case truthy (raw message) of
                            Some r \<Rightarrow> r
                          | None \<Rightarrow> fst (reconstructRawMessage rt k message)))
     \<and> filter isLineTerminator escaped
         = filter isLineTerminator
             (case truthy (raw message) of
                Some r \<Rightarrow> r
              | None \<Rightarrow> fst (reconstructRawMessage rt k message)))
     \<and> (prefix (str ''From '') l \<longrightarrow> quoteFromLine l = 0x3E # l)
     \<and> (\<not> prefix (str ''From '') l \<longrightarrow> quoteFromLine l = l)
     \<and> (prefix (str ''>From '') l \<longrightarrow> quoteFromLine l = l)"
proof -
  let ?content = "case truthy (raw message) of
                    Some r \<Rightarrow> r
                  | None \<Rightarrow> fst (reconstructRawMessage rt k message)"
  obtain l0 ls0 where r: "regexLines ?content = l0 # ls0" by (rule regexLines_obtain)
  have e: "fst (messageToMboxEntry rt k message)
           = createFromLine rt message @ [0x0A] @ escapeFromLines True ?content @ [0x0A, 0x0A]"
    by (simp add: messageToMboxEntry_def Let_def split: option.splits prod.splits)
  have q: "prefix (str ''>From '') l \<longrightarrow> quoteFromLine l = l"
    by (auto simp: quoteFromLine_def str_def prefix_def)
  have "\<exists>escaped.
     fst (messageToMboxEntry rt k message)
       = createFromLine rt message @ [0x0A] @ escaped @ [0x0A, 0x0A]
     \<and> regexLines escaped = map quoteFromLine (regexLines ?content)
     \<and> filter isLineTerminator escaped = filter isLineTerminator ?content"
    apply (rule exI [of _ "escapeFromLines True ?content"])
    using e regexLines_escape [OF r, of True] r terminators_escape [of True ?content]
    by simp
  with q show ?thesis
    by (simp add: quoteFromLine_def)
qed

theorem From_lines_quoted_once_witness:
  "prefix (str ''From '') (str ''From a'') \<and> quoteFromLine (str ''From a'') = str ''>From a''
   \<and> prefix (str ''>From '') (str ''>From b'') \<and> quoteFromLine (str ''>From b'') = str ''>From b''
   \<and> \<not> prefix (str ''From '') (str ''c'') \<and> quoteFromLine (str ''c'') = str ''c''
   \<and> fst (messageToMboxEntry sampleRuntime 0
             (sampleMessage\<lparr>raw := Some (str ''From a\<newline>>From b\<newline>c'')\<rparr>))
       = str ''From sender@example.com Mon Jan 01 2024 00:00:00 GMT+0000 (Coordinated Universal Time)\<newline>>From a\<newline>>From b\<newline>c\<newline>\<newline>''"
proof -
  have 1: "prefix (str ''From '') (str ''From a'')"
    and 2: "prefix (str ''>From '') (str ''>From b'')"
    and 3: "\<not> prefix (str ''From '') (str ''c'')"
    by (simp_all add: str_def)
  have 4: "fst (messageToMboxEntry sampleRuntime 0
             (sampleMessage\<lparr>raw := Some (str ''From a\<newline>>From b\<newline>c'')\<rparr>))
       = str ''From sender@example.com Mon Jan 01 2024 00:00:00 GMT+0000 (Coordinated Universal Time)\<newline>>From a\<newline>>From b\<newline>c\<newline>\<newline>''"
    by (simp add: messageToMboxEntry_def createFromLine_def Date_toString_def sampleRuntime_def
        sampleMessage_def truthy_def orElse_def Let_def str_def escapeFromLines.simps
        isLineTerminator_def)
  let ?m = "sampleMessage\<lparr>raw := Some (str ''From a\<newline>>From b\<newline>c'')\<rparr>"
  from From_lines_quoted_once [of sampleRuntime 0 ?m "str ''From a''"]
    From_lines_quoted_once [of sampleRuntime 0 ?m "str ''>From b''"]
    From_lines_quoted_once [of sampleRuntime 0 ?m "str ''c''"] 1 2 3 4
  show ?thesis
    by (simp add: str_def)
qed

section \<open>MBOX: what is written is read back\<close>

subsection \<open>Greedy quantifiers\<close>


text \<open>The header pattern: the key is the text before the first colon.\<close>

lemma header_tail:
  "rx_match [Star (\<lambda>c. \<not> isLineTerminator c), AtEnd] v
     = (if noTerminator v then Some [v, []] else None)"
  by (induction v) (auto simp: noTerminator_def)

lemma header_value:
  "rx_match [Star isWhiteSpace, Star (\<lambda>c. \<not> isLineTerminator c), AtEnd] R
     = (if noTerminator (dropWhile isWhiteSpace R)
        then Some [takeWhile isWhiteSpace R, dropWhile isWhiteSpace R, []] else None)"
proof (induction R)
  case Nil
  show ?case by (simp add: noTerminator_def)
next
  case (Cons c R)
  show ?case
  proof (cases "isWhiteSpace c")
    case True
    show ?thesis
    proof (cases "noTerminator (dropWhile isWhiteSpace R)")
      case t: True
      with True Cons show ?thesis by simp
    next
      case False
      then have "\<not> noTerminator (c # R)"
        by (auto simp: noTerminator_def dest: set_dropWhileD)
      then have "rx_match [Star (\<lambda>c. \<not> isLineTerminator c), AtEnd] (c # R) = None"
        by (simp only: header_tail if_False)
      with True False Cons show ?thesis by simp
    qed
  next
    case False
    have "rx_match [Star isWhiteSpace, Star (\<lambda>c. \<not> isLineTerminator c), AtEnd] (c # R)
            = map_option (\<lambda>m. [] # m) (rx_match [Star (\<lambda>c. \<not> isLineTerminator c), AtEnd] (c # R))"
      using False by simp
    also have "\<dots> = (if noTerminator (c # R) then Some [[], c # R, []] else None)"
      by (simp only: header_tail) simp
    finally show ?thesis using False by simp
  qed
qed




subsection \<open>The address pattern\<close>









lemma trim_id: "s \<noteq> [] \<Longrightarrow> \<not> isWhiteSpace (hd s) \<Longrightarrow> \<not> isWhiteSpace (last s) \<Longrightarrow> trim s = s"
proof -
  assume a: "s \<noteq> []" "\<not> isWhiteSpace (hd s)" "\<not> isWhiteSpace (last s)"
  then have 1: "dropWhile isWhiteSpace s = s" by (cases s) auto
  from a have "rev s \<noteq> []" "\<not> isWhiteSpace (hd (rev s))" by (auto simp: hd_rev)
  then have "dropWhile isWhiteSpace (rev s) = rev s" by (cases "rev s") auto
  with 1 show ?thesis by (simp add: trim_def)
qed



subsection \<open>Reading addresses\<close>



subsection \<open>The header loop\<close>










subsection \<open>Lines separated by line feeds\<close>






lemma splitOn_cut:
  "d \<notin> set p \<Longrightarrow> splitOn d (p @ d # s) = p # splitOn d s"
  by (induction p) auto



subsection \<open>Quoting, line by line\<close>











subsection \<open>One message, written and read back\<close>


















subsection \<open>Cutting the mailbox into entries\<close>














lemmas eval_defs = messageToMboxEntry_def createFromLine_def Date_toString_def Date_toUTCString_def
  sampleRuntime_def sampleMessage_def sampleSecond_def truthy_def orElse_def Let_def str_def
  escapeFromLines.simps isLineTerminator_def reconstructRawMessage_def buildHeaders_def
  additionalHeaders_def alreadyAdded_def toLowerCase_def toLowerChar_def headerValueToString_def
  simpleBody_def formatAddress_def parseMbox_def splitFrom.simps trim_def isWhiteSpace_def
  afterFirstNewline_def parseMessage_def headerPattern_def addressPattern_def parseAddress_def
  parseAddresses_def setHeader_def numberToString_def enumerate_eq_zip


text \<open>
  The header loop does not stop at the empty line that ends the headers, so a line of the
  body that looks like a header is read as one: here the body line \<open>Subject: hijacked\<close>
  replaces the subject \<open>Re: plans\<close>. The amended claim leaves such bodies out.
\<close>

lemma body_line_read_as_header:
  "map subject (parseMbox (\<lambda>s. InvalidDate) (\<lambda>i. InvalidDate)
      (fst (messagesToMbox sampleRuntime 0
              [sampleSecond\<lparr>text' := Some (str ''Hi\<newline>Subject: hijacked'')\<rparr>])))
     = [str ''hijacked'']"
  by (simp add: eval_defs)




end
